theory Spec2Isabelle
  imports Complex_Main
begin

section \<open>Values exchanged with pandas, numpy and scikit-learn\<close>

text \<open>
  The dashboard script \<^verbatim>\<open>app.py\<close> computes nothing numerical itself: it loads a table,
  hands it to library estimators, copies their outputs into dataframes and draws charts.
  The embedding therefore keeps the script's own control flow, its dataframe manipulations
  and its calls, and takes the numerical libraries as an environment: what
  \<^verbatim>\<open>pd.read_csv\<close>, the column transformer, PCA, k-means and \<^verbatim>\<open>joblib.dump\<close> return
  (or raise) is a parameter of every definition. Floating-point entries are carried as
  reals; the script performs no arithmetic on them.
\<close>

datatype py_error =
    ValueError
  | KeyError string
  | IndexError
  | AttributeError
  | LibraryError string

datatype column = FloatCol "real list" | IntCol "int list" | ObjCol "string list"

fun col_len :: "column \<Rightarrow> nat" where
  "col_len (FloatCol xs) = length xs"
| "col_len (IntCol xs) = length xs"
| "col_len (ObjCol xs) = length xs"

text \<open>A dataframe: its number of rows and its named columns, in column order.\<close>

record dataframe =
  nrows :: nat
  cols :: "(string \<times> column) list"

definition columns_of :: "dataframe \<Rightarrow> string list" where
  "columns_of d = map fst (cols d)"

text \<open>A two-dimensional float array, stored by columns; \<open>shape0\<close> is its number of rows.\<close>

record ndarray =
  shape0 :: nat
  coldata :: "real list list"

text \<open>\<^verbatim>\<open>a[:, k]\<close>: an index past the last column raises.\<close>

definition slice_col :: "ndarray \<Rightarrow> nat \<Rightarrow> py_error + column" where
  "slice_col a k =
     (if k < length (coldata a) then Inr (FloatCol (coldata a ! k)) else Inl IndexError)"

text \<open>\<^verbatim>\<open>xs[k]\<close> on a Python list.\<close>

definition list_get :: "'a list \<Rightarrow> nat \<Rightarrow> py_error + 'a" where
  "list_get xs k = (if k < length xs then Inr (xs ! k) else Inl IndexError)"

text \<open>\<^verbatim>\<open>dataframe[name]\<close>: the column of that name, or \<^verbatim>\<open>KeyError\<close>.\<close>

definition getitem :: "dataframe \<Rightarrow> string \<Rightarrow> py_error + column" where
  "getitem d name =
     (case map_of (cols d) name of None \<Rightarrow> Inl (KeyError name) | Some c \<Rightarrow> Inr c)"

text \<open>\<^verbatim>\<open>series == i\<close> for an integer \<open>i\<close>: the element-wise mask.\<close>

fun eq_int :: "column \<Rightarrow> int \<Rightarrow> bool list" where
  "eq_int (FloatCol xs) i = map (\<lambda>x. x = real_of_int i) xs"
| "eq_int (IntCol xs) i = map (\<lambda>x. x = i) xs"
| "eq_int (ObjCol xs) i = map (\<lambda>x. False) xs"

definition keep :: "bool list \<Rightarrow> 'a list \<Rightarrow> 'a list" where
  "keep sel xs = map snd (filter fst (zip sel xs))"

fun mask_col :: "bool list \<Rightarrow> column \<Rightarrow> column" where
  "mask_col sel (FloatCol xs) = FloatCol (keep sel xs)"
| "mask_col sel (IntCol xs) = IntCol (keep sel xs)"
| "mask_col sel (ObjCol xs) = ObjCol (keep sel xs)"

text \<open>\<^verbatim>\<open>dataframe[mask]\<close>: the rows where the mask holds, every column kept.\<close>

definition mask_rows :: "dataframe \<Rightarrow> bool list \<Rightarrow> dataframe" where
  "mask_rows d sel =
     \<lparr>nrows = length (filter id sel),
      cols = map (\<lambda>(name, c). (name, mask_col sel c)) (cols d)\<rparr>"

text \<open>
  \<^verbatim>\<open>dataframe[name] = values\<close>: replaces the column of that name or appends a new last
  column; a value of the wrong length raises \<^verbatim>\<open>ValueError\<close>.
\<close>

fun set_col :: "string \<Rightarrow> column \<Rightarrow> (string \<times> column) list \<Rightarrow> (string \<times> column) list" where
  "set_col name c [] = [(name, c)]"
| "set_col name c ((n, c') # rest) =
     (if n = name then (n, c) # rest else (n, c') # set_col name c rest)"

definition setitem :: "dataframe \<Rightarrow> string \<Rightarrow> column \<Rightarrow> py_error + dataframe" where
  "setitem d name c =
     (if col_len c \<noteq> nrows d then Inl ValueError
      else Inr (d\<lparr>cols := set_col name c (cols d)\<rparr>))"

text \<open>
  \<^verbatim>\<open>pd.DataFrame(array, columns=names)\<close>: one float column per array column; a number of
  names different from the array's width raises \<^verbatim>\<open>ValueError\<close>.
\<close>

definition DataFrame :: "ndarray \<Rightarrow> string list \<Rightarrow> py_error + dataframe" where
  "DataFrame a names =
     (if length (coldata a) \<noteq> length names then Inl ValueError
      else Inr \<lparr>nrows = shape0 a, cols = zip names (map FloatCol (coldata a))\<rparr>)"

text \<open>\<^verbatim>\<open>dataframe.select_dtypes("number")\<close>, iterated: the names of the numeric columns.\<close>

fun is_number :: "column \<Rightarrow> bool" where
  "is_number (FloatCol xs) = True"
| "is_number (IntCol xs) = True"
| "is_number (ObjCol xs) = False"

definition select_dtypes_number :: "dataframe \<Rightarrow> string list" where
  "select_dtypes_number d = map fst (filter (\<lambda>(name, c). is_number c) (cols d))"

text \<open>Formatting an integer inside an f-string.\<close>

fun str_nat :: "nat \<Rightarrow> string" where
  "str_nat n =
     (if n < 10 then [''0123456789'' ! n]
      else str_nat (n div 10) @ [''0123456789'' ! (n mod 10)])"

definition str_int :: "int \<Rightarrow> string" where
  "str_int i = (if i < 0 then ''-'' @ str_nat (nat (- i)) else str_nat (nat i))"

section \<open>Charts\<close>

text \<open>
  Drawing calls are recorded as data: a colour of a seaborn palette is the palette's name,
  its size and the position in it; a scatter call keeps its three coordinate series and
  its keyword arguments. Figure sizes and layout options are left out, and the drawing
  calls themselves are taken not to raise.
\<close>

datatype color = PaletteColor string nat nat | NamedColor string

definition color_palette :: "string \<Rightarrow> int \<Rightarrow> color list" where
  "color_palette name n = map (PaletteColor name (nat n)) [0..<nat n]"

record scatter =
  sx :: column
  sy :: column
  sz :: column
  scolor :: color
  slabel :: "string option"
  smarker :: "string option"
  ssize :: "nat option"

record boxplot =
  bax :: nat
  bdata :: dataframe
  bx :: string
  by_col :: string
  bhue :: string
  bpalette :: "color list"

datatype figure =
    Figure3D "scatter list" string string string
  | PairGrid dataframe string string string
  | BoxFigure "boxplot list"

section \<open>Observable calls and the program state\<close>

datatype event =
    StMarkdown string
  | StTitle string
  | StWrite string
  | StHeader string
  | StSubheader string
  | StError string
  | StPyplot figure
  | Fit string

text \<open>
  The pipeline object: for the two transformers only whether they have been fitted, for
  the clustering stage its fitted attributes \<^verbatim>\<open>labels_\<close> and \<^verbatim>\<open>cluster_centers_\<close>.
\<close>

record pipeline_obj =
  preprocessing_fitted :: bool
  pca_fitted :: bool
  clustering_attrs :: "(int list \<times> ndarray) option"

text \<open>
  Dataframe objects live in a store indexed by address, so that a copy and an alias are
  different things; \<open>files\<close> holds what has been written to disk.
\<close>

record world =
  frames :: "nat \<Rightarrow> dataframe"
  next_frame :: nat
  pipeline :: pipeline_obj
  files :: "string \<rightharpoonup> pipeline_obj"
  trace :: "event list"

text \<open>The environment: the input file system, the estimators, the widget, the disk.\<close>

record env =
  read_csv :: "string \<Rightarrow> py_error + dataframe"
  column_transformer :: "(string \<times> string \<times> string list) list \<Rightarrow> dataframe \<Rightarrow> py_error + ndarray"
  pca :: "nat \<Rightarrow> nat \<Rightarrow> ndarray \<Rightarrow> py_error + ndarray"
  kmeans :: "nat \<Rightarrow> nat \<Rightarrow> nat \<Rightarrow> ndarray \<Rightarrow> py_error + int list \<times> ndarray"
  dump_error :: "string \<Rightarrow> py_error option"
  selectbox :: "string \<Rightarrow> string list \<Rightarrow> string"

text \<open>
  An action runs on a world and returns a value or the exception raised, with the world
  as it is at that moment.
\<close>

type_synonym 'a action = "world \<Rightarrow> (py_error + 'a) \<times> world"

definition ret :: "'a \<Rightarrow> 'a action" where
  "ret x w = (Inr x, w)"

definition raise :: "py_error \<Rightarrow> 'a action" where
  "raise e w = (Inl e, w)"

definition then_do :: "'a action \<Rightarrow> ('a \<Rightarrow> 'b action) \<Rightarrow> 'b action" where
  "then_do m f w =
     (case m w of (Inl e, w') \<Rightarrow> (Inl e, w') | (Inr x, w') \<Rightarrow> f x w')"

definition lift :: "py_error + 'a \<Rightarrow> 'a action" where
  "lift r w = (r, w)"

definition emit :: "event \<Rightarrow> unit action" where
  "emit ev w = (Inr (), w\<lparr>trace := trace w @ [ev]\<rparr>)"

definition new_frame :: "dataframe \<Rightarrow> nat action" where
  "new_frame d w =
     (Inr (next_frame w),
      w\<lparr>frames := (frames w)(next_frame w := d), next_frame := Suc (next_frame w)\<rparr>)"

definition get_frame :: "nat \<Rightarrow> dataframe action" where
  "get_frame a w = (Inr (frames w a), w)"

definition put_frame :: "nat \<Rightarrow> dataframe \<Rightarrow> unit action" where
  "put_frame a d w = (Inr (), w\<lparr>frames := (frames w)(a := d)\<rparr>)"

text \<open>\<^verbatim>\<open>frame.copy()\<close>: a new object with the same contents.\<close>

definition copy_frame :: "nat \<Rightarrow> nat action" where
  "copy_frame a = then_do (get_frame a) new_frame"

text \<open>\<^verbatim>\<open>frame[name] = values\<close> on the object at address \<open>a\<close>.\<close>

definition setitem_frame :: "nat \<Rightarrow> string \<Rightarrow> column \<Rightarrow> unit action" where
  "setitem_frame a name c =
     then_do (get_frame a) (\<lambda>d. then_do (lift (setitem d name c)) (put_frame a))"

section \<open>The literals of the script\<close>

definition css_customizado :: string where
  \<comment> \<open>line 30\<close>
  "css_customizado =
     [CHR 0x0A] @
     ''    <style>'' @
     [CHR 0x0A] @
     ''    .main {'' @
     [CHR 0x0A] @
     ''        background-color: #303030;'' @
     [CHR 0x0A] @
     ''    }'' @
     [CHR 0x0A] @
     ''    .sidebar .sidebar-content {'' @
     [CHR 0x0A] @
     ''        background-color: #424242;'' @
     [CHR 0x0A] @
     ''    }'' @
     [CHR 0x0A] @
     ''    </style>'' @
     [CHR 0x0A] @
     ''    ''"

definition txt_titulo :: string where
  \<comment> \<open>line 94\<close>
  "txt_titulo =
     ''An'' @
     [CHR 0xC3, CHR 0xA1] @
     ''lise de Cluster de Clientes''"

definition txt_introducao :: string where
  \<comment> \<open>line 95\<close>
  "txt_introducao =
     ''## Visualize a an'' @
     [CHR 0xC3, CHR 0xA1] @
     ''lise de clusters em tempo real. Selecione a visualiza'' @
     [CHR 0xC3, CHR 0xA7, CHR 0xC3, CHR 0xA3] @
     ''o desejada e explore os dados!''"

definition txt_pairplot_titulo :: string where
  \<comment> \<open>line 105\<close>
  "txt_pairplot_titulo =
     ''### Pairplot dos Clusters''"

definition txt_pairplot_descricao :: string where
  \<comment> \<open>line 106\<close>
  "txt_pairplot_descricao =
     ''Este gr'' @
     [CHR 0xC3, CHR 0xA1] @
     ''fico mostra a distribui'' @
     [CHR 0xC3, CHR 0xA7, CHR 0xC3, CHR 0xA3] @
     ''o dos clusters com base nas vari'' @
     [CHR 0xC3, CHR 0xA1] @
     ''veis originais.''"

definition txt_boxplot_cluster_titulo :: string where
  \<comment> \<open>line 111\<close>
  "txt_boxplot_cluster_titulo =
     ''### Boxplot por Cluster''"

definition txt_boxplot_cluster_descricao :: string where
  \<comment> \<open>line 112\<close>
  "txt_boxplot_cluster_descricao =
     ''Compare as distribui'' @
     [CHR 0xC3, CHR 0xA7, CHR 0xC3, CHR 0xB5] @
     ''es das vari'' @
     [CHR 0xC3, CHR 0xA1] @
     ''veis para cada cluster.''"

definition txt_boxplot_genero_titulo :: string where
  \<comment> \<open>line 120\<close>
  "txt_boxplot_genero_titulo =
     ''### Boxplot por G'' @
     [CHR 0xC3, CHR 0xAA] @
     ''nero''"

definition txt_boxplot_genero_descricao :: string where
  \<comment> \<open>line 121\<close>
  "txt_boxplot_genero_descricao =
     ''Compare as distribui'' @
     [CHR 0xC3, CHR 0xA7, CHR 0xC3, CHR 0xB5] @
     ''es das vari'' @
     [CHR 0xC3, CHR 0xA1] @
     ''veis para cada g'' @
     [CHR 0xC3, CHR 0xAA] @
     ''nero dentro dos clusters.''"

definition txt_3d_sem_titulo :: string where
  \<comment> \<open>line 129\<close>
  "txt_3d_sem_titulo =
     ''### Cluster em 3D (sem dispers'' @
     [CHR 0xC3, CHR 0xA3] @
     ''o)''"

definition txt_3d_sem_descricao :: string where
  \<comment> \<open>line 130\<close>
  "txt_3d_sem_descricao =
     ''Visualiza'' @
     [CHR 0xC3, CHR 0xA7, CHR 0xC3, CHR 0xA3] @
     ''o dos clusters em 3D ap'' @
     [CHR 0xC3, CHR 0xB3] @
     ''s aplica'' @
     [CHR 0xC3, CHR 0xA7, CHR 0xC3, CHR 0xA3] @
     ''o do PCA.''"

definition txt_3d_com_titulo :: string where
  \<comment> \<open>line 144\<close>
  "txt_3d_com_titulo =
     ''### Cluster em 3D (com dispers'' @
     [CHR 0xC3, CHR 0xA3] @
     ''o)''"

definition txt_3d_com_descricao :: string where
  \<comment> \<open>line 145\<close>
  "txt_3d_com_descricao =
     ''Visualiza'' @
     [CHR 0xC3, CHR 0xA7, CHR 0xC3, CHR 0xA3] @
     ''o dos clusters em 3D com dispers'' @
     [CHR 0xC3, CHR 0xA3] @
     ''o ap'' @
     [CHR 0xC3, CHR 0xB3] @
     ''s aplica'' @
     [CHR 0xC3, CHR 0xA7, CHR 0xC3, CHR 0xA3] @
     ''o do PCA.''"

definition txt_conclusao :: string where
  \<comment> \<open>line 163\<close>
  "txt_conclusao =
     ''Conclus'' @
     [CHR 0xC3, CHR 0xA3] @
     ''o do Projeto de Clusteriza'' @
     [CHR 0xC3, CHR 0xA7, CHR 0xC3, CHR 0xA3] @
     ''o de Clientes''"

definition txt_resumo_titulo :: string where
  \<comment> \<open>line 165\<close>
  "txt_resumo_titulo =
     ''Resumo dos Principais Aspectos e Resultados''"

definition txt_resumo :: string where
  \<comment> \<open>line 166\<close>
  "txt_resumo =
     [CHR 0x0A] @
     ''Neste projeto, realizamos uma an'' @
     [CHR 0xC3, CHR 0xA1] @
     ''lise detalhada dos dados de clientes, aplicando t'' @
     [CHR 0xC3, CHR 0xA9] @
     ''cnicas de pr'' @
     [CHR 0xC3, CHR 0xA9] @
     ''-processamento, visualiza'' @
     [CHR 0xC3, CHR 0xA7, CHR 0xC3, CHR 0xA3] @
     ''o e clusteriza'' @
     [CHR 0xC3, CHR 0xA7, CHR 0xC3, CHR 0xA3] @
     ''o. Utilizamos gr'' @
     [CHR 0xC3, CHR 0xA1] @
     ''ficos 2D e 3D para interpretar melhor a distribui'' @
     [CHR 0xC3, CHR 0xA7, CHR 0xC3, CHR 0xA3] @
     ''o dos clusters e identificar padr'' @
     [CHR 0xC3, CHR 0xB5] @
     ''es e correla'' @
     [CHR 0xC3, CHR 0xA7, CHR 0xC3, CHR 0xB5] @
     ''es. Implementamos a redu'' @
     [CHR 0xC3, CHR 0xA7, CHR 0xC3, CHR 0xA3] @
     ''o de dimensionalidade com PCA para melhorar a qualidade dos '' @
     ''clusters e facilitar a visualiza'' @
     [CHR 0xC3, CHR 0xA7, CHR 0xC3, CHR 0xA3] @
     ''o.'' @
     [CHR 0x0A]"

definition txt_descricao_titulo :: string where
  \<comment> \<open>line 170\<close>
  "txt_descricao_titulo =
     ''Descri'' @
     [CHR 0xC3, CHR 0xA7, CHR 0xC3, CHR 0xA3] @
     ''o dos Clusters Antes do PCA''"

definition txt_descricao_tabela :: string where
  \<comment> \<open>line 171\<close>
  "txt_descricao_tabela =
     [CHR 0x0A] @
     ''| Pontua'' @
     [CHR 0xC3, CHR 0xA7, CHR 0xC3, CHR 0xA3] @
     ''o de Gastos | Renda   | Idade    | Cluster |'' @
     [CHR 0x0A] @
     ''|---------------------|---------|----------|---------|'' @
     [CHR 0x0A] @
     ''| Alta                | Alta    | Jovem    | 0       |'' @
     [CHR 0x0A] @
     ''| Moderada            | Moderada| Alta     | 1       |'' @
     [CHR 0x0A] @
     ''| Alta                | Baixa   | Jovem    | 2       |'' @
     [CHR 0x0A] @
     ''| Baixa               | Alta    | Moderada | 3       |'' @
     [CHR 0x0A] @
     ''| Moderada            | Moderada| Jovem    | 4       |'' @
     [CHR 0x0A]"

definition txt_analise_titulo :: string where
  \<comment> \<open>line 181\<close>
  "txt_analise_titulo =
     ''An'' @
     [CHR 0xC3, CHR 0xA1] @
     ''lise dos Resultados''"

definition txt_analise_tabela :: string where
  \<comment> \<open>line 182\<close>
  "txt_analise_tabela =
     [CHR 0x0A] @
     ''Ap'' @
     [CHR 0xC3, CHR 0xB3] @
     ''s aplicar o PCA, identificamos os seguintes padr'' @
     [CHR 0xC3, CHR 0xB5] @
     ''es nos clusters:'' @
     [CHR 0x0A, CHR 0x0A] @
     ''| Cluster | Idade                      | Renda Anual | Score'' @
     '' de Gastos         | Observa'' @
     [CHR 0xC3, CHR 0xA7, CHR 0xC3, CHR 0xB5] @
     ''es                                                          '' @
     ''                         |'' @
     [CHR 0x0A] @
     ''|---------|----------------------------|-------------|------'' @
     ''------------------|-----------------------------------------'' @
     ''-----------------------------------------------------|'' @
     [CHR 0x0A] @
     ''| 4       | 30 a 40 anos               | Alta        | Alta '' @
     ''                  | Clientes com maiores scores, rendas anua'' @
     ''is elevadas, demonstrando maior estabilidade financeira. |'' @
     [CHR 0x0A] @
     ''| 3       | Menos de 30 anos           | Baixa       | Alta '' @
     ''                  | O menor cluster, com menor renda anual, '' @
     ''mas scores elevados, quase no n'' @
     [CHR 0xC3, CHR 0xAD] @
     ''vel do Cluster 4.     |'' @
     [CHR 0x0A] @
     ''| 2       | 35 a 50 anos               | Alta        | Menor'' @
     ''                  | Clientes com alta renda anual, mas score'' @
     ''s menores, indicando poss'' @
     [CHR 0xC3, CHR 0xAD] @
     ''vel falta de cr'' @
     [CHR 0xC3, CHR 0xA9] @
     ''dito.      |'' @
     [CHR 0x0A] @
     ''| 0       | Acima de 50 at'' @
     [CHR 0xC3, CHR 0xA9] @
     '' 60 anos    | Moderada    | Moderado               | Represe'' @
     ''ntam a maior parte dos clientes, com rendas anuais e scores '' @
     ''muito semelhantes ao Cluster 1. |'' @
     [CHR 0x0A] @
     ''| 1       | Maior que 20 at'' @
     [CHR 0xC3, CHR 0xA9] @
     '' 35 anos   | Moderada    | Moderado               | Represen'' @
     ''tam a maior parte dos clientes, com rendas anuais e scores m'' @
     ''uito semelhantes ao Cluster 0. |'' @
     [CHR 0x0A]"

definition txt_final_titulo :: string where
  \<comment> \<open>line 194\<close>
  "txt_final_titulo =
     ''Conclus'' @
     [CHR 0xC3, CHR 0xA3] @
     ''o Final''"

definition txt_final :: string where
  \<comment> \<open>line 195\<close>
  "txt_final =
     [CHR 0x0A] @
     ''Atrav'' @
     [CHR 0xC3, CHR 0xA9] @
     ''s desta an'' @
     [CHR 0xC3, CHR 0xA1] @
     ''lise, conseguimos segmentar os clientes em grupos distintos,'' @
     '' facilitando a compreens'' @
     [CHR 0xC3, CHR 0xA3] @
     ''o dos diferentes perfis de consumidores. Essas informa'' @
     [CHR 0xC3, CHR 0xA7, CHR 0xC3, CHR 0xB5] @
     ''es s'' @
     [CHR 0xC3, CHR 0xA3] @
     ''o valiosas para estrat'' @
     [CHR 0xC3, CHR 0xA9] @
     ''gias de marketing, cr'' @
     [CHR 0xC3, CHR 0xA9] @
     ''dito e tomada de decis'' @
     [CHR 0xC3, CHR 0xB5] @
     ''es empresariais. A utiliza'' @
     [CHR 0xC3, CHR 0xA7, CHR 0xC3, CHR 0xA3] @
     ''o de t'' @
     [CHR 0xC3, CHR 0xA9] @
     ''cnicas avan'' @
     [CHR 0xC3, CHR 0xA7] @
     ''adas como PCA e visualiza'' @
     [CHR 0xC3, CHR 0xA7, CHR 0xC3, CHR 0xB5] @
     ''es 3D permitiu uma an'' @
     [CHR 0xC3, CHR 0xA1] @
     ''lise mais precisa e detalhada dos dados, revelando padr'' @
     [CHR 0xC3, CHR 0xB5] @
     ''es importantes que n'' @
     [CHR 0xC3, CHR 0xA3] @
     ''o seriam aparentes em uma an'' @
     [CHR 0xC3, CHR 0xA1] @
     ''lise superficial.'' @
     [CHR 0x0A, CHR 0x0A] @
     ''O projeto demonstrou a import'' @
     [CHR 0xC3, CHR 0xA2] @
     ''ncia do pr'' @
     [CHR 0xC3, CHR 0xA9] @
     ''-processamento, da redu'' @
     [CHR 0xC3, CHR 0xA7, CHR 0xC3, CHR 0xA3] @
     ''o de dimensionalidade e da visualiza'' @
     [CHR 0xC3, CHR 0xA7, CHR 0xC3, CHR 0xA3] @
     ''o avan'' @
     [CHR 0xC3, CHR 0xA7] @
     ''ada na an'' @
     [CHR 0xC3, CHR 0xA1] @
     ''lise de dados de clientes, proporcionando insights valiosos '' @
     ''e acion'' @
     [CHR 0xC3, CHR 0xA1] @
     ''veis.'' @
     [CHR 0x0A]"

definition DADOS :: string where
  \<comment> \<open>line 43\<close>
  "DADOS =
     ''dados/Mall_Customers_no_CustomerID.csv''"

definition MODELO :: string where
  \<comment> \<open>line 71\<close>
  "MODELO =
     ''modelos/pipeline_preprocessing_pca_clustering.pkl''"

definition rotulo_seletor :: string where
  \<comment> \<open>line 99\<close>
  "rotulo_seletor =
     ''Selecione a visualiza'' @
     [CHR 0xC3, CHR 0xA7, CHR 0xC3, CHR 0xA3] @
     ''o''"

definition opcao_pairplot :: string where
  \<comment> \<open>line 100\<close>
  "opcao_pairplot =
     ''Pairplot''"

definition opcao_boxplot_cluster :: string where
  \<comment> \<open>line 100\<close>
  "opcao_boxplot_cluster =
     ''Boxplot por Cluster''"

definition opcao_boxplot_genero :: string where
  \<comment> \<open>line 100\<close>
  "opcao_boxplot_genero =
     ''Boxplot por G'' @
     [CHR 0xC3, CHR 0xAA] @
     ''nero''"

definition opcao_3d_sem :: string where
  \<comment> \<open>line 100\<close>
  "opcao_3d_sem =
     ''Cluster em 3D (sem dispers'' @
     [CHR 0xC3, CHR 0xA3] @
     ''o)''"

definition opcao_3d_com :: string where
  \<comment> \<open>line 100\<close>
  "opcao_3d_com =
     ''Cluster em 3D (com dispers'' @
     [CHR 0xC3, CHR 0xA3] @
     ''o)''"

definition msg_prefixo :: string where
  \<comment> \<open>line 76\<close>
  "msg_prefixo =
     ''Coluna '' @
     [CHR 0x27]"

definition msg_sufixo :: string where
  \<comment> \<open>line 76\<close>
  "msg_sufixo =
     [CHR 0x27] @
     '' n'' @
     [CHR 0xC3, CHR 0xA3] @
     ''o encontrada no dataframe.''"

section \<open>The pipeline (lines 41--71)\<close>

definition RANDOM_STATE :: nat where
  "RANDOM_STATE = 42"

definition preprocessing :: "(string \<times> string \<times> string list) list" where
  "preprocessing =
     [(''standard'', ''StandardScaler'', [''Age'', ''Annual Income (k$)'', ''Spending Score (1-100)'']),
      (''onehot'', ''OneHotEncoder'', [''Gender''])]"

definition update_pipeline :: "(pipeline_obj \<Rightarrow> pipeline_obj) \<Rightarrow> unit action" where
  "update_pipeline f w = (Inr (), w\<lparr>pipeline := f (pipeline w)\<rparr>)"

text \<open>
  Fitting one stage: the call is recorded, the estimator runs (and may raise), the stage
  object becomes fitted. The hyperparameters are the literals of lines 61 and 62.
\<close>

definition fit_preprocessing :: "env \<Rightarrow> dataframe \<Rightarrow> ndarray action" where
  "fit_preprocessing env X =
     then_do (emit (Fit ''preprocessing'')) (\<lambda>_.
     then_do (lift (column_transformer env preprocessing X)) (\<lambda>Xt.
     then_do (update_pipeline (\<lambda>p. p\<lparr>preprocessing_fitted := True\<rparr>)) (\<lambda>_.
     ret Xt)))"

definition fit_pca :: "env \<Rightarrow> ndarray \<Rightarrow> ndarray action" where
  "fit_pca env Xt =
     then_do (emit (Fit ''pca'')) (\<lambda>_.
     then_do (lift (pca env 3 RANDOM_STATE Xt)) (\<lambda>Xr.
     then_do (update_pipeline (\<lambda>p. p\<lparr>pca_fitted := True\<rparr>)) (\<lambda>_.
     ret Xr)))"

definition fit_clustering :: "env \<Rightarrow> ndarray \<Rightarrow> unit action" where
  "fit_clustering env Xr =
     then_do (emit (Fit ''clustering'')) (\<lambda>_.
     then_do (lift (kmeans env 5 RANDOM_STATE 10 Xr)) (\<lambda>attrs.
     update_pipeline (\<lambda>p. p\<lparr>clustering_attrs := Some attrs\<rparr>)))"

text \<open>\<^verbatim>\<open>pipeline.fit(X)\<close>: every stage is fitted in order, each on the output of the one before.\<close>

definition pipeline_fit :: "env \<Rightarrow> dataframe \<Rightarrow> unit action" where
  "pipeline_fit env X =
     then_do (fit_preprocessing env X) (\<lambda>Xt.
     then_do (fit_pca env Xt) (\<lambda>Xr.
     fit_clustering env Xr))"

text \<open>
  \<^verbatim>\<open>pipeline[:-1].fit_transform(X)\<close>: the slice shares the first two stage objects with
  the pipeline, and \<^verbatim>\<open>fit_transform\<close> fits both again before transforming.
\<close>

definition prefix_fit_transform :: "env \<Rightarrow> dataframe \<Rightarrow> ndarray action" where
  "prefix_fit_transform env X =
     then_do (fit_preprocessing env X) (\<lambda>Xt. fit_pca env Xt)"

text \<open>\<^verbatim>\<open>pipeline["clustering"].labels_\<close> and \<^verbatim>\<open>.cluster_centers_\<close>.\<close>

definition get_labels :: "int list action" where
  "get_labels w =
     (case clustering_attrs (pipeline w) of
        None \<Rightarrow> (Inl AttributeError, w)
      | Some (labels, centers) \<Rightarrow> (Inr labels, w))"

definition get_cluster_centers :: "ndarray action" where
  "get_cluster_centers w =
     (case clustering_attrs (pipeline w) of
        None \<Rightarrow> (Inl AttributeError, w)
      | Some (labels, centers) \<Rightarrow> (Inr centers, w))"

text \<open>\<^verbatim>\<open>joblib.dump(pipeline, path)\<close>: the file receives the pipeline as it is now.\<close>

definition joblib_dump :: "env \<Rightarrow> string \<Rightarrow> unit action" where
  "joblib_dump env path w =
     (case dump_error env path of
        Some e \<Rightarrow> (Inl e, w)
      | None \<Rightarrow> (Inr (), w\<lparr>files := (files w)(path \<mapsto> pipeline w)\<rparr>))"

text \<open>
  Lines 67 to 71: the labels go into a copy of the table, then the pipeline is dumped.
  The result is the address held by \<^verbatim>\<open>df_clustered\<close>.
\<close>

definition rotular_e_salvar :: "env \<Rightarrow> nat \<Rightarrow> nat action" where
  "rotular_e_salvar env df =
     then_do (copy_frame df) (\<lambda>df_clustered.
     then_do get_labels (\<lambda>labels.
     then_do (setitem_frame df_clustered ''cluster'' (IntCol labels)) (\<lambda>_.
     then_do (joblib_dump env MODELO) (\<lambda>_.
     ret df_clustered))))"

text \<open>
  Lines 30 to 71: the style sheet, the load, the fit, the labelled copy and the dump.
  The result is the pair of addresses held by \<^verbatim>\<open>df\<close> and \<^verbatim>\<open>df_clustered\<close>.
\<close>

definition carregar_e_ajustar :: "env \<Rightarrow> (nat \<times> nat) action" where
  "carregar_e_ajustar env =
     then_do (emit (StMarkdown css_customizado)) (\<lambda>_.
     then_do (lift (read_csv env DADOS)) (\<lambda>tabela.
     then_do (new_frame tabela) (\<lambda>df.
     then_do (get_frame df) (\<lambda>X.
     then_do (pipeline_fit env X) (\<lambda>_.
     then_do (rotular_e_salvar env df) (\<lambda>df_clustered.
     ret (df, df_clustered)))))))"

section \<open>\<^verbatim>\<open>visualizar_cluster\<close> (lines 74--91)\<close>

definition bind_e :: "py_error + 'a \<Rightarrow> ('a \<Rightarrow> py_error + 'b) \<Rightarrow> py_error + 'b" where
  "bind_e r f = (case r of Inl e \<Rightarrow> Inl e | Inr x \<Rightarrow> f x)"

fun for_each :: "('a \<Rightarrow> py_error + 'b) \<Rightarrow> 'a list \<Rightarrow> py_error + 'b list" where
  "for_each f [] = Inr []"
| "for_each f (x # xs) =
     bind_e (f x) (\<lambda>y. bind_e (for_each f xs) (\<lambda>ys. Inr (y # ys)))"

text \<open>The argument \<^verbatim>\<open>coluna_clusters\<close> defaults to \<^verbatim>\<open>None\<close>, which names no column.\<close>

definition falta_coluna :: "string option \<Rightarrow> dataframe \<Rightarrow> bool" where
  "falta_coluna k d = (case k of None \<Rightarrow> True | Some c \<Rightarrow> c \<notin> set (columns_of d))"

definition fmt_opt :: "string option \<Rightarrow> string" where
  "fmt_opt k = (case k of None \<Rightarrow> ''None'' | Some c \<Rightarrow> c)"

definition getitem_opt :: "dataframe \<Rightarrow> string option \<Rightarrow> py_error + column" where
  "getitem_opt d k = (case k of None \<Rightarrow> Inl (KeyError ''None'') | Some c \<Rightarrow> getitem d c)"

definition msg_coluna :: "string option \<Rightarrow> string" where
  "msg_coluna k = msg_prefixo @ fmt_opt k @ msg_sufixo"

text \<open>Line 83: the rows of cluster \<open>i\<close> when \<^verbatim>\<open>mostrar_pontos\<close> is set, the whole frame otherwise.\<close>

definition pontos_de :: "dataframe \<Rightarrow> string option \<Rightarrow> bool \<Rightarrow> int \<Rightarrow> py_error + dataframe" where
  "pontos_de d coluna_clusters mostrar_pontos i =
     (if mostrar_pontos
      then bind_e (getitem_opt d coluna_clusters) (\<lambda>s. Inr (mask_rows d (eq_int s i)))
      else Inr d)"

text \<open>Lines 83 and 84: one pass of the loop, giving the scatter call it makes.\<close>

definition scatter_cluster ::
  "dataframe \<Rightarrow> string list \<Rightarrow> color list \<Rightarrow> string option \<Rightarrow> bool \<Rightarrow> int \<Rightarrow> py_error + scatter" where
  "scatter_cluster d colunas colors coluna_clusters mostrar_pontos i =
     bind_e (pontos_de d coluna_clusters mostrar_pontos i) (\<lambda>pontos.
     bind_e (list_get colunas 0) (\<lambda>c0. bind_e (getitem pontos c0) (\<lambda>x.
     bind_e (list_get colunas 1) (\<lambda>c1. bind_e (getitem pontos c1) (\<lambda>y.
     bind_e (list_get colunas 2) (\<lambda>c2. bind_e (getitem pontos c2) (\<lambda>z.
     bind_e (list_get colors (nat i)) (\<lambda>cor.
     Inr \<lparr>sx = x, sy = y, sz = z, scolor = cor,
          slabel = Some (''Cluster '' @ str_int i), smarker = None, ssize = None\<rparr>))))))))"

text \<open>Lines 85 and 86: the centroid marks, when centroids are given.\<close>

definition scatter_centroids :: "ndarray option \<Rightarrow> py_error + scatter list" where
  "scatter_centroids centroids =
     (case centroids of
        None \<Rightarrow> Inr []
      | Some c \<Rightarrow>
          bind_e (slice_col c 0) (\<lambda>x.
          bind_e (slice_col c 1) (\<lambda>y.
          bind_e (slice_col c 2) (\<lambda>z.
          Inr [\<lparr>sx = x, sy = y, sz = z, scolor = NamedColor ''black'',
                slabel = None, smarker = Some ''x'', ssize = Some 200\<rparr>]))))"

text \<open>Lines 79 to 90: the figure, built call by call; the first exception ends it.\<close>

definition montar_figura ::
  "dataframe \<Rightarrow> string list \<Rightarrow> int \<Rightarrow> ndarray option \<Rightarrow> bool \<Rightarrow> string option \<Rightarrow> py_error + figure" where
  "montar_figura d colunas quantidade_cores centroids mostrar_pontos coluna_clusters =
     bind_e (for_each
               (scatter_cluster d colunas (color_palette ''Set2'' quantidade_cores)
                  coluna_clusters mostrar_pontos)
               (map int [0..<nat quantidade_cores])) (\<lambda>nuvens.
     bind_e (scatter_centroids centroids) (\<lambda>marcas.
     bind_e (list_get colunas 0) (\<lambda>xlabel.
     bind_e (list_get colunas 1) (\<lambda>ylabel.
     bind_e (list_get colunas 2) (\<lambda>zlabel.
     Inr (Figure3D (nuvens @ marcas) xlabel ylabel zlabel))))))"

definition visualizar_cluster ::
  "nat \<Rightarrow> string list \<Rightarrow> int \<Rightarrow> ndarray option \<Rightarrow> bool \<Rightarrow> string option \<Rightarrow> unit action" where
  "visualizar_cluster dataframe colunas quantidade_cores centroids mostrar_pontos coluna_clusters =
     then_do (get_frame dataframe) (\<lambda>d.
       if falta_coluna coluna_clusters d
       then emit (StError (msg_coluna coluna_clusters))
       else then_do (lift (montar_figura d colunas quantidade_cores centroids
                             mostrar_pontos coluna_clusters))
              (\<lambda>fig. emit (StPyplot fig)))"

section \<open>The views (lines 104--159)\<close>

definition ramo_pairplot :: "nat \<Rightarrow> unit action" where
  "ramo_pairplot df_clustered =
     then_do (emit (StWrite txt_pairplot_titulo)) (\<lambda>_.
     then_do (emit (StWrite txt_pairplot_descricao)) (\<lambda>_.
     then_do (get_frame df_clustered) (\<lambda>d.
     emit (StPyplot (PairGrid d ''kde'' ''cluster'' ''tab10'')))))"

text \<open>Lines 113 to 116 and 122 to 125: three axes, zipped with the numeric columns.\<close>

definition boxplots :: "dataframe \<Rightarrow> string \<Rightarrow> color list \<Rightarrow> boxplot list" where
  "boxplots d hue palette =
     map (\<lambda>(ax, col). \<lparr>bax = ax, bdata = d, bx = ''cluster'', by_col = col,
                        bhue = hue, bpalette = palette\<rparr>)
       (zip [0..<3] (select_dtypes_number d))"

definition ramo_boxplot_cluster :: "nat \<Rightarrow> unit action" where
  "ramo_boxplot_cluster df_clustered =
     then_do (emit (StWrite txt_boxplot_cluster_titulo)) (\<lambda>_.
     then_do (emit (StWrite txt_boxplot_cluster_descricao)) (\<lambda>_.
     then_do (get_frame df_clustered) (\<lambda>d.
     emit (StPyplot (BoxFigure (boxplots d ''cluster'' (color_palette ''Set2'' 5)))))))"

definition ramo_boxplot_genero :: "nat \<Rightarrow> unit action" where
  "ramo_boxplot_genero df_clustered =
     then_do (emit (StWrite txt_boxplot_genero_titulo)) (\<lambda>_.
     then_do (emit (StWrite txt_boxplot_genero_descricao)) (\<lambda>_.
     then_do (get_frame df_clustered) (\<lambda>d.
     emit (StPyplot (BoxFigure (boxplots d ''Gender'' (color_palette ''Set2'' 2)))))))"

text \<open>
  Lines 131 to 135 and 146 to 150, the same in both 3-D views: the reduced coordinates
  are recomputed, put into a new frame and given the column of labels.
\<close>

text \<open>\<^verbatim>\<open>[f'pca{i}' for i in range(3)]\<close>\<close>

definition pca_columns :: "string list" where
  "pca_columns = map (\<lambda>i. ''pca'' @ str_nat i) [0..<3]"

definition montar_df_pca :: "env \<Rightarrow> nat \<Rightarrow> nat action" where
  "montar_df_pca env df =
     then_do (get_frame df) (\<lambda>X.
     then_do (prefix_fit_transform env X) (\<lambda>Xr.
     then_do (lift (DataFrame Xr pca_columns)) (\<lambda>d.
     then_do (new_frame d) (\<lambda>df_pca.
     then_do get_labels (\<lambda>labels.
     then_do (setitem_frame df_pca ''cluster'' (IntCol labels)) (\<lambda>_.
     ret df_pca))))))"

definition ramo_3d_sem :: "env \<Rightarrow> nat \<Rightarrow> unit action" where
  "ramo_3d_sem env df =
     then_do (emit (StWrite txt_3d_sem_titulo)) (\<lambda>_.
     then_do (emit (StWrite txt_3d_sem_descricao)) (\<lambda>_.
     then_do (montar_df_pca env df) (\<lambda>df_pca.
     visualizar_cluster df_pca [''pca0'', ''pca1'', ''pca2''] 5 None False (Some ''cluster''))))"

definition ramo_3d_com :: "env \<Rightarrow> nat \<Rightarrow> unit action" where
  "ramo_3d_com env df =
     then_do (emit (StWrite txt_3d_com_titulo)) (\<lambda>_.
     then_do (emit (StWrite txt_3d_com_descricao)) (\<lambda>_.
     then_do (montar_df_pca env df) (\<lambda>df_pca.
     then_do get_cluster_centers (\<lambda>centroids.
     visualizar_cluster df_pca [''pca0'', ''pca1'', ''pca2''] 5 (Some centroids) True
       (Some ''cluster'')))))"

definition opcoes :: "string list" where
  "opcoes = [opcao_pairplot, opcao_boxplot_cluster, opcao_boxplot_genero, opcao_3d_sem, opcao_3d_com]"

text \<open>The chain of \<^verbatim>\<open>if\<close>/\<^verbatim>\<open>elif\<close> of lines 104 to 159; it has no \<^verbatim>\<open>else\<close>.\<close>

definition visualizacao :: "env \<Rightarrow> nat \<Rightarrow> nat \<Rightarrow> string \<Rightarrow> unit action" where
  "visualizacao env df df_clustered opcao_visualizacao =
     (if opcao_visualizacao = opcao_pairplot then ramo_pairplot df_clustered
      else if opcao_visualizacao = opcao_boxplot_cluster then ramo_boxplot_cluster df_clustered
      else if opcao_visualizacao = opcao_boxplot_genero then ramo_boxplot_genero df_clustered
      else if opcao_visualizacao = opcao_3d_sem then ramo_3d_sem env df
      else if opcao_visualizacao = opcao_3d_com then ramo_3d_com env df
      else ret ())"

section \<open>The closing text (lines 163--199) and the whole script\<close>

definition conclusao :: "unit action" where
  "conclusao =
     then_do (emit (StHeader txt_conclusao)) (\<lambda>_.
     then_do (emit (StSubheader txt_resumo_titulo)) (\<lambda>_.
     then_do (emit (StWrite txt_resumo)) (\<lambda>_.
     then_do (emit (StSubheader txt_descricao_titulo)) (\<lambda>_.
     then_do (emit (StWrite txt_descricao_tabela)) (\<lambda>_.
     then_do (emit (StSubheader txt_analise_titulo)) (\<lambda>_.
     then_do (emit (StWrite txt_analise_tabela)) (\<lambda>_.
     then_do (emit (StSubheader txt_final_titulo)) (\<lambda>_.
     emit (StWrite txt_final)))))))))"

text \<open>Lines 94 to 199: the title, the selector, the selected view, the closing text.\<close>

definition apresentar :: "env \<Rightarrow> nat \<Rightarrow> nat \<Rightarrow> unit action" where
  "apresentar env df df_clustered =
     then_do (emit (StTitle txt_titulo)) (\<lambda>_.
     then_do (emit (StWrite txt_introducao)) (\<lambda>_.
     then_do (visualizacao env df df_clustered (selectbox env rotulo_seletor opcoes)) (\<lambda>_.
     conclusao)))"

definition app :: "env \<Rightarrow> unit action" where
  "app env =
     then_do (carregar_e_ajustar env) (\<lambda>(df, df_clustered). apresentar env df df_clustered)"

text \<open>The world before the script starts: nothing allocated, fitted, written or shown.\<close>

definition world0 :: world where
  "world0 =
     \<lparr>frames = (\<lambda>a. \<lparr>nrows = 0, cols = []\<rparr>), next_frame = 0,
      pipeline = \<lparr>preprocessing_fitted = False, pca_fitted = False, clustering_attrs = None\<rparr>,
      files = Map.empty, trace = []\<rparr>"

definition run :: "env \<Rightarrow> (py_error + unit) \<times> world" where
  "run env = app env world0"

section \<open>Reading a run\<close>

text \<open>The charts shown, the error messages shown and the fits of a stage, in trace order.\<close>

fun chart_of :: "event \<Rightarrow> figure list" where
  "chart_of (StPyplot fig) = [fig]"
| "chart_of ev = []"

definition charts :: "world \<Rightarrow> figure list" where
  "charts w = concat (map chart_of (trace w))"

fun error_of :: "event \<Rightarrow> string list" where
  "error_of (StError m) = [m]"
| "error_of ev = []"

definition error_messages :: "world \<Rightarrow> string list" where
  "error_messages w = concat (map error_of (trace w))"

definition fits :: "string \<Rightarrow> world \<Rightarrow> nat" where
  "fits stage w = length (filter (\<lambda>ev. ev = Fit stage) (trace w))"

text \<open>The same environment with the user's selection fixed.\<close>

definition choosing :: "string \<Rightarrow> env \<Rightarrow> env" where
  "choosing opcao env = env\<lparr>selectbox := (\<lambda>rotulo opcs. opcao)\<rparr>"

section \<open>A small environment\<close>

text \<open>
  Five customers, and estimators that answer with fixed arrays: one label per customer,
  five centres in three dimensions. The user selects the pair plot.
\<close>

definition tabela_ex :: dataframe where
  "tabela_ex =
     \<lparr>nrows = 5,
      cols = [(''Gender'', ObjCol [''Male'', ''Male'', ''Female'', ''Female'', ''Female'']),
              (''Age'', IntCol [19, 21, 20, 23, 31]),
              (''Annual Income (k$)'', IntCol [15, 15, 16, 16, 17]),
              (''Spending Score (1-100)'', IntCol [39, 81, 6, 77, 40])]\<rparr>"

definition escalado_ex :: ndarray where
  "escalado_ex =
     \<lparr>shape0 = 5,
      coldata = [[-1, 0, -1, 0, 2], [-1, -1, 0, 0, 2], [0, 1, -2, 1, 0],
                 [0, 0, 1, 1, 1], [1, 1, 0, 0, 0]]\<rparr>"

definition reduzido_ex :: ndarray where
  "reduzido_ex =
     \<lparr>shape0 = 5, coldata = [[1, 2, 3, 4, 5], [6, 7, 8, 9, 10], [11, 12, 13, 14, 15]]\<rparr>"

definition centros_ex :: ndarray where
  "centros_ex =
     \<lparr>shape0 = 5, coldata = [[2, 4, 1, 5, 3], [7, 9, 6, 10, 8], [12, 14, 11, 15, 13]]\<rparr>"

definition env_ex :: env where
  "env_ex =
     \<lparr>read_csv = (\<lambda>path. if path = DADOS then Inr tabela_ex
                          else Inl (LibraryError ''FileNotFoundError'')),
      column_transformer = (\<lambda>spec X. Inr escalado_ex),
      pca = (\<lambda>n_components random_state X. Inr reduzido_ex),
      kmeans = (\<lambda>n_clusters random_state n_init X. Inr ([2, 0, 4, 1, 3], centros_ex)),
      dump_error = (\<lambda>path. None),
      selectbox = (\<lambda>rotulo opcs. opcao_pairplot)\<rparr>"

text \<open>The world of this environment once the start (lines 30 to 71) has run.\<close>

definition mundo_ex :: world where
  "mundo_ex = snd (carregar_e_ajustar env_ex world0)"

section \<open>Relations between the world before and after an action\<close>

text \<open>
  \<open>only_adds P\<close>: the trace has grown by events that all satisfy \<open>P\<close>.
  \<open>untouched\<close>: no existing dataframe object, no file and no fitted attribute of the
  clustering stage has changed.
\<close>

definition only_adds :: "(event \<Rightarrow> bool) \<Rightarrow> world \<Rightarrow> world \<Rightarrow> bool" where
  "only_adds P w w' = (\<exists>evs. trace w' = trace w @ evs \<and> list_all P evs)"

definition untouched :: "world \<Rightarrow> world \<Rightarrow> bool" where
  "untouched w w' =
     (next_frame w \<le> next_frame w' \<and> (\<forall>a<next_frame w. frames w' a = frames w a) \<and>
      files w' = files w \<and>
      clustering_attrs (pipeline w') = clustering_attrs (pipeline w))"

fun is_error :: "event \<Rightarrow> bool" where
  "is_error (StError m) = True"
| "is_error ev = False"

fun is_chart :: "event \<Rightarrow> bool" where
  "is_chart (StPyplot fig) = True"
| "is_chart ev = False"

fun is_fit :: "event \<Rightarrow> bool" where
  "is_fit (Fit stage) = True"
| "is_fit ev = False"

fun is_text :: "event \<Rightarrow> bool" where
  "is_text (StError m) = False"
| "is_text (StPyplot fig) = False"
| "is_text (Fit stage) = False"
| "is_text ev = True"

fun artists :: "figure \<Rightarrow> scatter list" where
  "artists (Figure3D scatters xlabel ylabel zlabel) = scatters"
| "artists fig = []"

section \<open>Basic facts about actions\<close>

declare str_nat.simps [simp del]

lemmas action_defs = then_do_def ret_def raise_def lift_def emit_def new_frame_def get_frame_def
  put_frame_def copy_frame_def setitem_frame_def update_pipeline_def get_labels_def
  get_cluster_centers_def joblib_dump_def

lemma then_do_rel:
  assumes "R w (snd (m w))"
    and "\<And>x w'. m w = (Inr x, w') \<Longrightarrow> R w' (snd (f x w'))"
    and "\<And>a b c. R a b \<Longrightarrow> R b c \<Longrightarrow> R a c"
  shows "R w (snd (then_do m f w))"
proof (cases "m w")
  case (Pair r w')
  show ?thesis
  proof (cases r)
    case (Inl e)
    with Pair assms(1) show ?thesis by (simp add: then_do_def)
  next
    case (Inr x)
    with Pair have "R w w'" and "R w' (snd (f x w'))"
      using assms(1,2) by simp_all
    then have "R w (snd (f x w'))" by (rule assms(3))
    with Pair Inr show ?thesis by (simp add: then_do_def)
  qed
qed

lemma only_adds_refl: "only_adds P w w"
  by (simp add: only_adds_def)

lemma only_adds_trans: "only_adds P a b \<Longrightarrow> only_adds P b c \<Longrightarrow> only_adds P a c"
  by (auto simp: only_adds_def)

lemma only_adds_mono: "only_adds P w w' \<Longrightarrow> (\<And>ev. P ev \<Longrightarrow> Q ev) \<Longrightarrow> only_adds Q w w'"
  by (auto simp: only_adds_def list_all_iff)

lemma only_adds_same_trace: "trace w' = trace w \<Longrightarrow> only_adds P w w'"
  by (simp add: only_adds_def)

lemma only_adds_then_do:
  assumes "only_adds P w (snd (m w))"
    and "\<And>x w'. m w = (Inr x, w') \<Longrightarrow> only_adds P w' (snd (f x w'))"
  shows "only_adds P w (snd (then_do m f w))"
  using assms only_adds_trans [of P] by (rule then_do_rel)

lemma untouched_refl: "untouched w w"
  by (simp add: untouched_def)

lemma untouched_trans: "untouched a b \<Longrightarrow> untouched b c \<Longrightarrow> untouched a c"
  by (auto simp: untouched_def)

lemma untouched_then_do:
  assumes "untouched w (snd (m w))"
    and "\<And>x w'. m w = (Inr x, w') \<Longrightarrow> untouched w' (snd (f x w'))"
  shows "untouched w (snd (then_do m f w))"
  using assms untouched_trans by (rule then_do_rel)

lemma only_adds_emit: "P ev \<Longrightarrow> only_adds P w (snd (emit ev w))"
  by (simp add: only_adds_def emit_def)

lemma untouched_emit: "untouched w (snd (emit ev w))"
  by (simp add: untouched_def emit_def)

lemma only_adds_errors:
  assumes "only_adds P w w'" and "\<And>ev. P ev \<Longrightarrow> \<not> is_error ev"
  shows "error_messages w' = error_messages w"
proof -
  from assms(1) obtain evs where evs: "trace w' = trace w @ evs" "list_all P evs"
    by (auto simp: only_adds_def)
  have "list_all P xs \<Longrightarrow> concat (map error_of xs) = []" for xs
  proof (induction xs)
    case Nil
    show ?case by simp
  next
    case (Cons x xs)
    then have "\<not> is_error x" using assms(2) by simp
    then have "error_of x = []" by (cases x) simp_all
    with Cons show ?case by simp
  qed
  with evs show ?thesis by (simp add: error_messages_def)
qed

lemma only_adds_charts:
  assumes "only_adds P w w'" and "\<And>ev. P ev \<Longrightarrow> \<not> is_chart ev"
  shows "charts w' = charts w"
proof -
  from assms(1) obtain evs where evs: "trace w' = trace w @ evs" "list_all P evs"
    by (auto simp: only_adds_def)
  have "list_all P xs \<Longrightarrow> concat (map chart_of xs) = []" for xs
  proof (induction xs)
    case Nil
    show ?case by simp
  next
    case (Cons x xs)
    then have "\<not> is_chart x" using assms(2) by simp
    then have "chart_of x = []" by (cases x) simp_all
    with Cons show ?case by simp
  qed
  with evs show ?thesis by (simp add: charts_def)
qed

lemma only_adds_fits:
  assumes "only_adds P w w'" and "\<not> P (Fit stage)"
  shows "fits stage w' = fits stage w"
proof -
  from assms(1) obtain evs where evs: "trace w' = trace w @ evs" "list_all P evs"
    by (auto simp: only_adds_def)
  from evs(2) assms(2) have "filter (\<lambda>ev. ev = Fit stage) evs = []"
    by (auto simp: filter_empty_conv list_all_iff)
  with evs(1) show ?thesis by (simp add: fits_def)
qed



lemma only_adds_prims:
  "only_adds P w (snd (ret x w))"
  "only_adds P w (snd (raise e w))"
  "only_adds P w (snd (lift r w))"
  "only_adds P w (snd (get_frame a w))"
  "only_adds P w (snd (new_frame d w))"
  "only_adds P w (snd (put_frame a d w))"
  "only_adds P w (snd (update_pipeline g w))"
  "only_adds P w (snd (get_labels w))"
  "only_adds P w (snd (get_cluster_centers w))"
  "only_adds P w (snd (joblib_dump env path w))"
  by (simp_all add: action_defs only_adds_same_trace split: option.splits prod.splits)

lemma only_adds_copy_frame: "only_adds P w (snd (copy_frame a w))"
  unfolding copy_frame_def by (intro only_adds_then_do only_adds_prims)

lemma only_adds_setitem_frame: "only_adds P w (snd (setitem_frame a name c w))"
  unfolding setitem_frame_def by (intro only_adds_then_do only_adds_prims)

lemma untouched_prims:
  "untouched w (snd (ret x w))"
  "untouched w (snd (raise e w))"
  "untouched w (snd (lift r w))"
  "untouched w (snd (get_frame a w))"
  "untouched w (snd (new_frame d w))"
  "untouched w (snd (get_labels w))"
  "untouched w (snd (get_cluster_centers w))"
  "untouched w (snd (update_pipeline (\<lambda>p. p\<lparr>preprocessing_fitted := b\<rparr>) w))"
  "untouched w (snd (update_pipeline (\<lambda>p. p\<lparr>pca_fitted := b\<rparr>) w))"
  by (simp_all add: action_defs untouched_def split: option.splits prod.splits)

section \<open>The stages\<close>

lemma only_adds_fit_preprocessing:
  "P (Fit ''preprocessing'') \<Longrightarrow> only_adds P w (snd (fit_preprocessing env X w))"
  unfolding fit_preprocessing_def
  by (intro only_adds_then_do only_adds_prims only_adds_emit)

lemma only_adds_fit_pca:
  "P (Fit ''pca'') \<Longrightarrow> only_adds P w (snd (fit_pca env X w))"
  unfolding fit_pca_def
  by (intro only_adds_then_do only_adds_prims only_adds_emit)

lemma only_adds_fit_clustering:
  "P (Fit ''clustering'') \<Longrightarrow> only_adds P w (snd (fit_clustering env X w))"
  unfolding fit_clustering_def
  by (intro only_adds_then_do only_adds_prims only_adds_emit)

lemma untouched_fit_preprocessing: "untouched w (snd (fit_preprocessing env X w))"
  unfolding fit_preprocessing_def
  by (intro untouched_then_do untouched_prims untouched_emit)

lemma untouched_fit_pca: "untouched w (snd (fit_pca env X w))"
  unfolding fit_pca_def
  by (intro untouched_then_do untouched_prims untouched_emit)

lemma only_adds_pipeline_fit:
  assumes "\<And>ev. is_fit ev \<Longrightarrow> P ev"
  shows "only_adds P w (snd (pipeline_fit env X w))"
  unfolding pipeline_fit_def
  by (intro only_adds_then_do only_adds_fit_preprocessing only_adds_fit_pca
      only_adds_fit_clustering assms) simp_all

lemma only_adds_prefix_fit_transform:
  "P (Fit ''preprocessing'') \<Longrightarrow> P (Fit ''pca'') \<Longrightarrow>
   only_adds P w (snd (prefix_fit_transform env X w))"
  unfolding prefix_fit_transform_def
  by (intro only_adds_then_do only_adds_fit_preprocessing only_adds_fit_pca)

lemma untouched_prefix_fit_transform: "untouched w (snd (prefix_fit_transform env X w))"
  unfolding prefix_fit_transform_def
  by (intro untouched_then_do untouched_fit_preprocessing untouched_fit_pca)

lemma only_adds_carregar:
  assumes "P (StMarkdown css_customizado)" and "\<And>ev. is_fit ev \<Longrightarrow> P ev"
  shows "only_adds P w (snd (carregar_e_ajustar env w))"
  unfolding carregar_e_ajustar_def rotular_e_salvar_def
  by (intro only_adds_then_do only_adds_prims only_adds_emit only_adds_pipeline_fit
      only_adds_copy_frame only_adds_setitem_frame assms)


section \<open>\<^verbatim>\<open>visualizar_cluster\<close>\<close>

lemma visualizar_cluster_missing:
  "falta_coluna k (frames w a) \<Longrightarrow>
   visualizar_cluster a colunas n centroids mostrar k w =
     (Inr (), w\<lparr>trace := trace w @ [StError (msg_coluna k)]\<rparr>)"
  by (simp add: visualizar_cluster_def action_defs)

lemma visualizar_cluster_present:
  "\<not> falta_coluna k (frames w a) \<Longrightarrow>
   visualizar_cluster a colunas n centroids mostrar k w =
     (case montar_figura (frames w a) colunas n centroids mostrar k of
        Inl e \<Rightarrow> (Inl e, w)
      | Inr fig \<Rightarrow> (Inr (), w\<lparr>trace := trace w @ [StPyplot fig]\<rparr>))"
  by (simp add: visualizar_cluster_def action_defs split: sum.splits)

lemma untouched_visualizar_cluster:
  "untouched w (snd (visualizar_cluster a colunas n centroids mostrar k w))"
  by (cases "falta_coluna k (frames w a)")
     (simp_all add: visualizar_cluster_missing visualizar_cluster_present untouched_def
       split: sum.splits)

lemma only_adds_visualizar_cluster:
  "\<not> falta_coluna k (frames w a) \<Longrightarrow> P = is_chart \<Longrightarrow>
   only_adds P w (snd (visualizar_cluster a colunas n centroids mostrar k w))"
  by (simp add: visualizar_cluster_present only_adds_def split: sum.splits)


section \<open>The frame of reduced coordinates\<close>

lemma upt_5: "[0..<5] = [0, 1, 2, 3, 4]"
  by (simp add: upt_rec)

lemma upt_3: "[0..<3] = [0, 1, 2]"
  by (simp add: upt_rec)

lemma pca_names: "pca_columns = [''pca0'', ''pca1'', ''pca2'']"
  by (simp add: pca_columns_def upt_3 str_nat.simps)

text \<open>What \<open>montar_df_pca\<close> returns when it returns: a new frame of three coordinate columns
  and the column of labels, nothing else changed.\<close>

lemma montar_df_pca_result:
  assumes "montar_df_pca env df w = (Inr a, w')"
  shows "\<exists>(Xr::ndarray) xs ys zs labels centers.
           coldata Xr = [xs, ys, zs] \<and> length labels = shape0 Xr \<and>
           clustering_attrs (pipeline w) = Some (labels, centers) \<and>
           next_frame w \<le> a \<and>
           frames w' a =
             \<lparr>nrows = shape0 Xr,
              cols = [(''pca0'', FloatCol xs), (''pca1'', FloatCol ys), (''pca2'', FloatCol zs),
                      (''cluster'', IntCol labels)]\<rparr>"
proof -
  obtain r1 w1 where p: "prefix_fit_transform env (frames w df) w = (r1, w1)"
    by (cases "prefix_fit_transform env (frames w df) w")
  have u: "untouched w w1"
    using untouched_prefix_fit_transform [of w env "frames w df"] p by simp
  from assms p obtain Xr where r1: "r1 = Inr Xr"
    by (cases r1) (simp_all add: montar_df_pca_def action_defs)
  from assms p r1 have len: "length (coldata Xr) = 3"
    by (simp add: montar_df_pca_def action_defs DataFrame_def pca_names split: if_splits)
  then obtain xs ys zs where c: "coldata Xr = [xs, ys, zs]"
    by (auto simp: length_Suc_conv numeral_3_eq_3)
  from assms p r1 c obtain labels centers where
    l: "clustering_attrs (pipeline w1) = Some (labels, centers)"
    by (auto simp: montar_df_pca_def action_defs DataFrame_def pca_names
        split: if_splits option.splits)
  from assms p r1 c l have rest: "length labels = shape0 Xr \<and> a = next_frame w1 \<and>
      frames w' a = \<lparr>nrows = shape0 Xr,
              cols = [(''pca0'', FloatCol xs), (''pca1'', FloatCol ys), (''pca2'', FloatCol zs),
                      (''cluster'', IntCol labels)]\<rparr>"
    by (auto simp: montar_df_pca_def action_defs DataFrame_def pca_names setitem_def
        split: if_splits)
  from u l have "clustering_attrs (pipeline w) = Some (labels, centers)"
    and "next_frame w \<le> next_frame w1"
    by (simp_all add: untouched_def)
  with c rest have "coldata Xr = [xs, ys, zs] \<and> length labels = shape0 Xr \<and>
      clustering_attrs (pipeline w) = Some (labels, centers) \<and> next_frame w \<le> a \<and>
      frames w' a = \<lparr>nrows = shape0 Xr,
              cols = [(''pca0'', FloatCol xs), (''pca1'', FloatCol ys), (''pca2'', FloatCol zs),
                      (''cluster'', IntCol labels)]\<rparr>"
    by auto
  then show ?thesis by blast
qed

lemma untouched_fresh_setitem:
  "untouched w
     (snd (then_do (new_frame d) (\<lambda>a. then_do get_labels (\<lambda>labels.
             then_do (setitem_frame a name (IntCol labels)) (\<lambda>_. ret a))) w))"
  by (auto simp: action_defs untouched_def split: option.splits sum.splits prod.splits)

lemma untouched_montar_df_pca: "untouched w (snd (montar_df_pca env df w))"
  unfolding montar_df_pca_def
  by (intro untouched_then_do untouched_prims untouched_prefix_fit_transform
      untouched_fresh_setitem)

lemma only_adds_montar_df_pca:
  "P (Fit ''preprocessing'') \<Longrightarrow> P (Fit ''pca'') \<Longrightarrow>
   only_adds P w (snd (montar_df_pca env df w))"
  unfolding montar_df_pca_def
  by (intro only_adds_then_do only_adds_prims only_adds_prefix_fit_transform
      only_adds_setitem_frame)

section \<open>The figure drawn from such a frame\<close>

lemma figura_sem:
  assumes "cols d = [(''pca0'', FloatCol xs), (''pca1'', FloatCol ys), (''pca2'', FloatCol zs),
                     (''cluster'', IntCol labels)]"
  shows "montar_figura d [''pca0'', ''pca1'', ''pca2''] 5 None False (Some ''cluster'') =
     Inr (Figure3D
       (map (\<lambda>i. \<lparr>sx = FloatCol xs, sy = FloatCol ys, sz = FloatCol zs,
                    scolor = PaletteColor ''Set2'' 5 i,
                    slabel = Some (''Cluster '' @ str_nat i),
                    smarker = None, ssize = None\<rparr>) [0..<5])
       ''pca0'' ''pca1'' ''pca2'')"
  using assms
  by (simp add: montar_figura_def scatter_cluster_def pontos_de_def scatter_centroids_def
      bind_e_def list_get_def getitem_def color_palette_def upt_5 str_int_def)

lemma figura_com:
  assumes "cols d = [(''pca0'', FloatCol xs), (''pca1'', FloatCol ys), (''pca2'', FloatCol zs),
                     (''cluster'', IntCol labels)]"
    and "coldata c = cx # cy # cz # outros"
  shows "montar_figura d [''pca0'', ''pca1'', ''pca2''] 5 (Some c) True (Some ''cluster'') =
     Inr (Figure3D
       (map (\<lambda>i. \<lparr>sx = FloatCol (keep (map (\<lambda>l. l = int i) labels) xs),
                    sy = FloatCol (keep (map (\<lambda>l. l = int i) labels) ys),
                    sz = FloatCol (keep (map (\<lambda>l. l = int i) labels) zs),
                    scolor = PaletteColor ''Set2'' 5 i,
                    slabel = Some (''Cluster '' @ str_nat i),
                    smarker = None, ssize = None\<rparr>) [0..<5] @
        [\<lparr>sx = FloatCol cx, sy = FloatCol cy, sz = FloatCol cz,
          scolor = NamedColor ''black'', slabel = None, smarker = Some ''x'',
          ssize = Some 200\<rparr>])
       ''pca0'' ''pca1'' ''pca2'')"
  using assms
  by (simp add: montar_figura_def scatter_cluster_def pontos_de_def scatter_centroids_def
      bind_e_def list_get_def getitem_def getitem_opt_def color_palette_def upt_5 str_int_def
      mask_rows_def slice_col_def)

lemma figura_com_sem_centroides:
  assumes "cols d = [(''pca0'', FloatCol xs), (''pca1'', FloatCol ys), (''pca2'', FloatCol zs),
                     (''cluster'', IntCol labels)]"
    and "length (coldata c) < 3"
  shows "montar_figura d [''pca0'', ''pca1'', ''pca2''] 5 (Some c) True (Some ''cluster'') =
     Inl IndexError"
  using assms
  by (simp add: montar_figura_def scatter_cluster_def pontos_de_def scatter_centroids_def
      bind_e_def list_get_def getitem_def getitem_opt_def color_palette_def upt_5 str_int_def
      mask_rows_def slice_col_def)


section \<open>The views\<close>

lemma only_adds_ramo_pairplot:
  "only_adds (\<lambda>ev. is_text ev \<or> is_chart ev) w (snd (ramo_pairplot df_clustered w))"
  unfolding ramo_pairplot_def
  by (intro only_adds_then_do only_adds_prims only_adds_emit) simp_all

lemma only_adds_ramo_boxplot_cluster:
  "only_adds (\<lambda>ev. is_text ev \<or> is_chart ev) w (snd (ramo_boxplot_cluster df_clustered w))"
  unfolding ramo_boxplot_cluster_def
  by (intro only_adds_then_do only_adds_prims only_adds_emit) simp_all

lemma only_adds_ramo_boxplot_genero:
  "only_adds (\<lambda>ev. is_text ev \<or> is_chart ev) w (snd (ramo_boxplot_genero df_clustered w))"
  unfolding ramo_boxplot_genero_def
  by (intro only_adds_then_do only_adds_prims only_adds_emit) simp_all

lemma untouched_ramo_pairplot: "untouched w (snd (ramo_pairplot df_clustered w))"
  unfolding ramo_pairplot_def
  by (intro untouched_then_do untouched_prims untouched_emit)

lemma untouched_ramo_boxplot_cluster: "untouched w (snd (ramo_boxplot_cluster df_clustered w))"
  unfolding ramo_boxplot_cluster_def
  by (intro untouched_then_do untouched_prims untouched_emit)

lemma untouched_ramo_boxplot_genero: "untouched w (snd (ramo_boxplot_genero df_clustered w))"
  unfolding ramo_boxplot_genero_def
  by (intro untouched_then_do untouched_prims untouched_emit)

text \<open>At both call sites the guard of \<open>visualizar_cluster\<close> finds its column.\<close>

lemma cluster_in_df_pca:
  assumes "montar_df_pca env df w = (Inr a, w')"
  shows "\<not> falta_coluna (Some ''cluster'') (frames w' a)"
proof -
  from montar_df_pca_result [OF assms] obtain sh xs ys zs labels where
    "frames w' a = \<lparr>nrows = sh,
       cols = [(''pca0'', FloatCol xs), (''pca1'', FloatCol ys), (''pca2'', FloatCol zs),
               (''cluster'', IntCol labels)]\<rparr>"
    by blast
  then show ?thesis by (simp add: falta_coluna_def columns_of_def)
qed

lemma only_adds_call_after_montar:
  assumes "montar_df_pca env df w = (Inr a, w')" and "\<And>ev. is_chart ev \<Longrightarrow> P ev"
  shows "only_adds P w'
           (snd (visualizar_cluster a colunas n centroids mostrar (Some ''cluster'') w'))"
  using only_adds_visualizar_cluster [OF cluster_in_df_pca [OF assms(1)] refl] assms(2)
  by (rule only_adds_mono)

lemma only_adds_ramo_3d_sem:
  assumes "\<And>ev. is_text ev \<or> is_chart ev \<or> is_fit ev \<Longrightarrow> P ev"
  shows "only_adds P w (snd (ramo_3d_sem env df w))"
  unfolding ramo_3d_sem_def
  by (intro only_adds_then_do only_adds_emit only_adds_montar_df_pca only_adds_call_after_montar
      assms) (simp_all add: assms)

lemma only_adds_centers_call_after_montar:
  assumes "montar_df_pca env df w = (Inr a, w')" and "\<And>ev. is_chart ev \<Longrightarrow> P ev"
  shows "only_adds P w'
           (snd (then_do get_cluster_centers
                   (\<lambda>c. visualizar_cluster a colunas n (Some c) mostrar (Some ''cluster'')) w'))"
proof (cases "clustering_attrs (pipeline w')")
  case None
  then show ?thesis
    by (simp add: then_do_def get_cluster_centers_def only_adds_refl)
next
  case (Some attrs)
  then show ?thesis
    using only_adds_call_after_montar [OF assms, where centroids = "Some (snd attrs)"]
    by (cases attrs) (simp add: then_do_def get_cluster_centers_def)
qed

lemma only_adds_ramo_3d_com:
  assumes "\<And>ev. is_text ev \<or> is_chart ev \<or> is_fit ev \<Longrightarrow> P ev"
  shows "only_adds P w (snd (ramo_3d_com env df w))"
  unfolding ramo_3d_com_def
  by (intro only_adds_then_do only_adds_emit only_adds_montar_df_pca
      only_adds_centers_call_after_montar assms) (simp_all add: assms)

lemma untouched_ramo_3d_sem: "untouched w (snd (ramo_3d_sem env df w))"
  unfolding ramo_3d_sem_def
  by (intro untouched_then_do untouched_emit untouched_montar_df_pca
      untouched_visualizar_cluster)

lemma untouched_ramo_3d_com: "untouched w (snd (ramo_3d_com env df w))"
  unfolding ramo_3d_com_def
  by (intro untouched_then_do untouched_emit untouched_montar_df_pca untouched_prims
      untouched_visualizar_cluster)

lemma opcoes_distinct: "distinct opcoes"
  by (simp add: opcoes_def opcao_pairplot_def opcao_boxplot_cluster_def opcao_boxplot_genero_def
      opcao_3d_sem_def opcao_3d_com_def)

lemma visualizacao_simps:
  "visualizacao env df dfc opcao_pairplot = ramo_pairplot dfc"
  "visualizacao env df dfc opcao_boxplot_cluster = ramo_boxplot_cluster dfc"
  "visualizacao env df dfc opcao_boxplot_genero = ramo_boxplot_genero dfc"
  "visualizacao env df dfc opcao_3d_sem = ramo_3d_sem env df"
  "visualizacao env df dfc opcao_3d_com = ramo_3d_com env df"
  using opcoes_distinct by (auto simp: visualizacao_def opcoes_def)

lemma visualizacao_other:
  "opcao \<notin> set opcoes \<Longrightarrow> visualizacao env df dfc opcao = ret ()"
  by (auto simp: visualizacao_def opcoes_def)

lemma untouched_visualizacao: "untouched w (snd (visualizacao env df dfc opcao w))"
  unfolding visualizacao_def
  by (simp add: untouched_ramo_pairplot untouched_ramo_boxplot_cluster
      untouched_ramo_boxplot_genero untouched_ramo_3d_sem untouched_ramo_3d_com untouched_prims)

lemma only_adds_visualizacao:
  assumes "\<And>ev. is_text ev \<or> is_chart ev \<or> is_fit ev \<Longrightarrow> P ev"
  shows "only_adds P w (snd (visualizacao env df dfc opcao w))"
proof -
  have "only_adds P w (snd (m w))"
    if "only_adds (\<lambda>ev. is_text ev \<or> is_chart ev) w (snd (m w))" for m :: "unit action"
    using that by (rule only_adds_mono) (auto intro: assms)
  then show ?thesis
    unfolding visualizacao_def
    by (simp add: only_adds_ramo_pairplot only_adds_ramo_boxplot_cluster
        only_adds_ramo_boxplot_genero only_adds_ramo_3d_sem only_adds_ramo_3d_com
        only_adds_prims assms)
qed

lemma only_adds_visualizacao_2d:
  assumes "opcao \<noteq> opcao_3d_sem" and "opcao \<noteq> opcao_3d_com"
  shows "only_adds (\<lambda>ev. is_text ev \<or> is_chart ev) w (snd (visualizacao env df dfc opcao w))"
  unfolding visualizacao_def using assms
  by (simp add: only_adds_ramo_pairplot only_adds_ramo_boxplot_cluster
      only_adds_ramo_boxplot_genero only_adds_prims)

section \<open>The closing text and the whole script\<close>

lemma only_adds_conclusao: "only_adds is_text w (snd (conclusao w))"
  unfolding conclusao_def
  by (intro only_adds_then_do only_adds_emit) simp_all

lemma untouched_conclusao: "untouched w (snd (conclusao w))"
  unfolding conclusao_def
  by (intro untouched_then_do untouched_emit)


lemma only_adds_apresentar:
  assumes "\<And>ev. is_text ev \<or> is_chart ev \<or> is_fit ev \<Longrightarrow> P ev"
  shows "only_adds P w (snd (apresentar env df dfc w))"
proof -
  have "only_adds P w0 (snd (conclusao w0))" for w0
    using only_adds_conclusao by (rule only_adds_mono) (simp add: assms)
  then show ?thesis
    unfolding apresentar_def
    by (intro only_adds_then_do only_adds_emit only_adds_visualizacao assms) simp_all
qed

lemma untouched_apresentar: "untouched w (snd (apresentar env df dfc w))"
  unfolding apresentar_def
  by (intro untouched_then_do untouched_emit untouched_visualizacao untouched_conclusao)

lemma app_cases:
  obtains (raised) e w1 where "carregar_e_ajustar env w = (Inl e, w1)" "app env w = (Inl e, w1)"
  | (ok) df dfc w1 where "carregar_e_ajustar env w = (Inr (df, dfc), w1)"
      "app env w = apresentar env df dfc w1"
proof (cases "carregar_e_ajustar env w")
  case (Pair r w1)
  show ?thesis
  proof (cases r)
    case (Inl e)
    with Pair show ?thesis by (intro raised [of e w1]) (simp_all add: app_def then_do_def)
  next
    case (Inr refs)
    with Pair show ?thesis
      by (cases refs) (auto intro: ok simp: app_def then_do_def)
  qed
qed

lemma only_adds_app:
  assumes "\<And>ev. is_text ev \<or> is_chart ev \<or> is_fit ev \<Longrightarrow> P ev"
  shows "only_adds P w (snd (app env w))"
  unfolding app_def
  by (intro only_adds_then_do only_adds_carregar) (auto intro: assms only_adds_apresentar)

text \<open>The start of a run, when every library call answers.\<close>

lemma carregar_ok:
  assumes "read_csv env DADOS = Inr t"
    and "column_transformer env preprocessing t = Inr Xt"
    and "pca env 3 RANDOM_STATE Xt = Inr Xr"
    and "kmeans env 5 RANDOM_STATE 10 Xr = Inr (labels, centers)"
    and "length labels = nrows t"
    and "dump_error env MODELO = None"
  shows "carregar_e_ajustar env world0 =
    (Inr (0, 1),
     \<lparr>frames = (\<lambda>a. \<lparr>nrows = 0, cols = []\<rparr>)
        (0 := t, 1 := t\<lparr>cols := set_col ''cluster'' (IntCol labels) (cols t)\<rparr>),
      next_frame = 2,
      pipeline = \<lparr>preprocessing_fitted = True, pca_fitted = True,
                  clustering_attrs = Some (labels, centers)\<rparr>,
      files = [MODELO \<mapsto> \<lparr>preprocessing_fitted = True, pca_fitted = True,
                  clustering_attrs = Some (labels, centers)\<rparr>],
      trace = [StMarkdown css_customizado, Fit ''preprocessing'', Fit ''pca'', Fit ''clustering'']\<rparr>)"
  using assms
  by (simp add: carregar_e_ajustar_def rotular_e_salvar_def pipeline_fit_def
      fit_preprocessing_def fit_pca_def fit_clustering_def action_defs world0_def setitem_def
      numeral_2_eq_2)


lemma then_do_InrE:
  assumes "then_do m f w = (Inr y, w'')"
  obtains x w' where "m w = (Inr x, w')" and "f x w' = (Inr y, w'')"
  using assms by (auto simp: then_do_def split: prod.splits sum.splits)

lemma pipeline_fit_effect:
  "frames (snd (pipeline_fit env X w)) = frames w \<and>
   next_frame (snd (pipeline_fit env X w)) = next_frame w \<and>
   files (snd (pipeline_fit env X w)) = files w \<and>
   fits stage (snd (pipeline_fit env X w)) \<le> fits stage w + 1"
  by (auto simp: pipeline_fit_def fit_preprocessing_def fit_pca_def fit_clustering_def
      action_defs fits_def split: sum.splits)

lemma rotular_effect:
  assumes "df < next_frame w"
  shows "frames (snd (rotular_e_salvar env df w)) df = frames w df \<and>
   next_frame w \<le> next_frame (snd (rotular_e_salvar env df w)) \<and>
   dom (files (snd (rotular_e_salvar env df w))) \<subseteq> insert MODELO (dom (files w)) \<and>
   trace (snd (rotular_e_salvar env df w)) = trace w"
  using assms
  by (auto simp: rotular_e_salvar_def action_defs setitem_def
      split: sum.splits option.splits if_splits)


text \<open>The start of a run, step by step.\<close>

lemma carregar_unfold:
  "carregar_e_ajustar env world0 =
     (case read_csv env DADOS of
        Inl e \<Rightarrow> (Inl e, world0\<lparr>trace := [StMarkdown css_customizado]\<rparr>)
      | Inr t \<Rightarrow>
          (case pipeline_fit env t
                  (world0\<lparr>trace := [StMarkdown css_customizado],
                          frames := (frames world0)(0 := t), next_frame := 1\<rparr>) of
             (Inl e, w2) \<Rightarrow> (Inl e, w2)
           | (Inr u, w2) \<Rightarrow>
               (case rotular_e_salvar env 0 w2 of
                  (Inl e, w3) \<Rightarrow> (Inl e, w3)
                | (Inr dfc, w3) \<Rightarrow> (Inr (0, dfc), w3))))"
  by (simp add: carregar_e_ajustar_def then_do_def emit_def lift_def new_frame_def get_frame_def
      ret_def world0_def split: sum.splits prod.splits)

lemma carregar_any:
  "dom (files (snd (carregar_e_ajustar env world0))) \<subseteq> {MODELO} \<and>
   fits stage (snd (carregar_e_ajustar env world0)) \<le> 1 \<and>
   (read_csv env DADOS = Inr t \<longrightarrow>
      frames (snd (carregar_e_ajustar env world0)) 0 = t \<and>
      0 < next_frame (snd (carregar_e_ajustar env world0)))"
proof (cases "read_csv env DADOS")
  case (Inl e)
  then show ?thesis
    unfolding carregar_unfold by (simp add: world0_def fits_def)
next
  case (Inr t')
  define wB where "wB = world0\<lparr>trace := [StMarkdown css_customizado],
                          frames := (frames world0)(0 := t'), next_frame := 1\<rparr>"
  obtain r2 w2 where p: "pipeline_fit env t' wB = (r2, w2)"
    by (cases "pipeline_fit env t' wB")
  have w2: "frames w2 = frames wB" "next_frame w2 = next_frame wB" "files w2 = files wB"
    "fits stage w2 \<le> fits stage wB + 1"
    using pipeline_fit_effect [of env t' wB stage] p by simp_all
  have wB: "frames wB 0 = t'" "next_frame wB = 1" "files wB = Map.empty" "fits stage wB = 0"
    by (simp_all add: wB_def world0_def fits_def)
  show ?thesis
  proof (cases r2)
    case (Inl e)
    with Inr p [unfolded wB_def] w2 wB show ?thesis
      unfolding carregar_unfold by auto
  next
    case (Inr u)
    obtain r3 w3 where q: "rotular_e_salvar env 0 w2 = (r3, w3)"
      by (cases "rotular_e_salvar env 0 w2")
    have "0 < next_frame w2" using w2 wB by simp
    from rotular_effect [OF this, of env] q
    have w3: "frames w3 0 = frames w2 0" "next_frame w2 \<le> next_frame w3"
      "dom (files w3) \<subseteq> insert MODELO (dom (files w2))" "trace w3 = trace w2"
      by simp_all
    then have "fits stage w3 = fits stage w2" by (simp add: fits_def)
    with \<open>read_csv env DADOS = Inr t'\<close> Inr p [unfolded wB_def] q w2 wB w3 show ?thesis
      unfolding carregar_unfold by (cases r3) auto
  qed
qed


text \<open>Conversely, a start that completes has had every library call answer.\<close>

lemma carregar_inversion:
  assumes "carregar_e_ajustar env world0 = (Inr refs, w1)"
  shows "\<exists>(t::dataframe) (Xt::ndarray) (Xr::ndarray) labels centers.
           read_csv env DADOS = Inr t \<and>
           column_transformer env preprocessing t = Inr Xt \<and>
           pca env 3 RANDOM_STATE Xt = Inr Xr \<and>
           kmeans env 5 RANDOM_STATE 10 Xr = Inr (labels, centers) \<and>
           length labels = nrows t \<and>
           dump_error env MODELO = None"
  using assms
  unfolding carregar_e_ajustar_def rotular_e_salvar_def pipeline_fit_def fit_preprocessing_def
    fit_pca_def fit_clustering_def copy_frame_def setitem_frame_def
  apply (elim then_do_InrE)
  apply (simp add: emit_def lift_def new_frame_def get_frame_def put_frame_def ret_def
      update_pipeline_def get_labels_def joblib_dump_def setitem_def world0_def
      split: option.splits if_splits prod.splits)
  apply clarsimp
  done


section \<open>Fits and charts of the parts\<close>

lemma prefix_fit_transform_fits:
  "fits stage (snd (prefix_fit_transform env X w)) \<le> fits stage w + 1"
  by (auto simp: prefix_fit_transform_def fit_preprocessing_def fit_pca_def action_defs fits_def
      split: sum.splits)

lemma prefix_fit_transform_ok:
  assumes "column_transformer env preprocessing X = Inr Xt"
    and "pca env 3 RANDOM_STATE Xt = Inr Xr"
  shows "prefix_fit_transform env X w =
     (Inr Xr, w\<lparr>trace := trace w @ [Fit ''preprocessing'', Fit ''pca''],
                 pipeline := pipeline w\<lparr>preprocessing_fitted := True, pca_fitted := True\<rparr>\<rparr>)"
  using assms
  by (simp add: prefix_fit_transform_def fit_preprocessing_def fit_pca_def action_defs)

lemma montar_df_pca_trace:
  "trace (snd (montar_df_pca env df w)) = trace (snd (prefix_fit_transform env (frames w df) w))"
proof (cases "prefix_fit_transform env (frames w df) w")
  case (Pair r w1)
  then show ?thesis
    by (cases r)
       (simp_all add: montar_df_pca_def action_defs setitem_def
         split: sum.splits option.splits prod.splits)
qed

lemma montar_df_pca_fits:
  "fits stage (snd (montar_df_pca env df w)) \<le> fits stage w + 1"
  using prefix_fit_transform_fits [of stage env "frames w df" w]
  by (simp add: fits_def montar_df_pca_trace)

section \<open>The two 3-D views, when every library call answers\<close>

lemma ramo_3d_sem_ok:
  assumes "column_transformer env preprocessing (frames w df) = Inr Xt"
    and "pca env 3 RANDOM_STATE Xt = Inr Xr"
    and "coldata Xr = [xs, ys, zs]"
    and "clustering_attrs (pipeline w) = Some (labels, centers)"
    and "length labels = shape0 Xr"
  shows "charts (snd (ramo_3d_sem env df w)) = charts w @
     [Figure3D
       (map (\<lambda>i. \<lparr>sx = FloatCol xs, sy = FloatCol ys, sz = FloatCol zs,
                    scolor = PaletteColor ''Set2'' 5 i,
                    slabel = Some (''Cluster '' @ str_nat i),
                    smarker = None, ssize = None\<rparr>) [0..<5])
       ''pca0'' ''pca1'' ''pca2'']"
  using assms
  by (simp add: ramo_3d_sem_def montar_df_pca_def prefix_fit_transform_ok action_defs
      DataFrame_def pca_names setitem_def visualizar_cluster_def falta_coluna_def columns_of_def
      figura_sem charts_def)

lemma ramo_3d_com_ok:
  assumes "column_transformer env preprocessing (frames w df) = Inr Xt"
    and "pca env 3 RANDOM_STATE Xt = Inr Xr"
    and "coldata Xr = [xs, ys, zs]"
    and "clustering_attrs (pipeline w) = Some (labels, centers)"
    and "length labels = shape0 Xr"
    and "coldata centers = cx # cy # cz # outros"
  shows "charts (snd (ramo_3d_com env df w)) = charts w @
     [Figure3D
       (map (\<lambda>i. \<lparr>sx = FloatCol (keep (map (\<lambda>l. l = int i) labels) xs),
                    sy = FloatCol (keep (map (\<lambda>l. l = int i) labels) ys),
                    sz = FloatCol (keep (map (\<lambda>l. l = int i) labels) zs),
                    scolor = PaletteColor ''Set2'' 5 i,
                    slabel = Some (''Cluster '' @ str_nat i),
                    smarker = None, ssize = None\<rparr>) [0..<5] @
        [\<lparr>sx = FloatCol cx, sy = FloatCol cy, sz = FloatCol cz,
          scolor = NamedColor ''black'', slabel = None, smarker = Some ''x'',
          ssize = Some 200\<rparr>])
       ''pca0'' ''pca1'' ''pca2'']"
  using assms
  by (simp add: ramo_3d_com_def montar_df_pca_def prefix_fit_transform_ok action_defs
      DataFrame_def pca_names setitem_def visualizar_cluster_def falta_coluna_def columns_of_def
      figura_com charts_def)

text \<open>In both 3-D views the only fits are those of the recomputed prefix.\<close>

lemma ramo_3d_fits:
  "fits stage (snd (ramo_3d_sem env df w)) =
     fits stage (snd (prefix_fit_transform env (frames w df)
       (w\<lparr>trace := trace w @ [StWrite txt_3d_sem_titulo, StWrite txt_3d_sem_descricao]\<rparr>)))"
  "fits stage (snd (ramo_3d_com env df w)) =
     fits stage (snd (prefix_fit_transform env (frames w df)
       (w\<lparr>trace := trace w @ [StWrite txt_3d_com_titulo, StWrite txt_3d_com_descricao]\<rparr>)))"
proof -
  let ?w2 = "\<lambda>a b. w\<lparr>trace := trace w @ [StWrite a, StWrite b]\<rparr>"
  have m: "fits stage (snd (montar_df_pca env df (?w2 a b))) =
           fits stage (snd (prefix_fit_transform env (frames w df) (?w2 a b)))" for a b
    by (simp add: montar_df_pca_trace fits_def)
  have tail: "fits stage (snd (then_do (montar_df_pca env df) f (?w2 a b))) =
              fits stage (snd (montar_df_pca env df (?w2 a b)))"
    if "\<And>x w'. montar_df_pca env df (?w2 a b) = (Inr x, w') \<Longrightarrow>
          only_adds is_chart w' (snd (f x w'))" for f :: "nat \<Rightarrow> unit action" and a b
  proof (cases "montar_df_pca env df (?w2 a b)")
    case (Pair r w')
    show ?thesis
    proof (cases r)
      case (Inl e)
      with Pair show ?thesis by (simp add: then_do_def)
    next
      case (Inr x)
      with Pair that have "only_adds is_chart w' (snd (f x w'))" by simp
      then have "fits stage (snd (f x w')) = fits stage w'"
        by (rule only_adds_fits) simp
      with Pair Inr show ?thesis by (simp add: then_do_def)
    qed
  qed
  show "fits stage (snd (ramo_3d_sem env df w)) =
     fits stage (snd (prefix_fit_transform env (frames w df)
       (w\<lparr>trace := trace w @ [StWrite txt_3d_sem_titulo, StWrite txt_3d_sem_descricao]\<rparr>)))"
    using tail [OF only_adds_call_after_montar, of txt_3d_sem_titulo txt_3d_sem_descricao]
      m [of txt_3d_sem_titulo txt_3d_sem_descricao]
    by (simp add: ramo_3d_sem_def then_do_def [of "emit ev" for ev] emit_def)
  show "fits stage (snd (ramo_3d_com env df w)) =
     fits stage (snd (prefix_fit_transform env (frames w df)
       (w\<lparr>trace := trace w @ [StWrite txt_3d_com_titulo, StWrite txt_3d_com_descricao]\<rparr>)))"
    using tail [OF only_adds_centers_call_after_montar, of txt_3d_com_titulo txt_3d_com_descricao]
      m [of txt_3d_com_titulo txt_3d_com_descricao]
    by (simp add: ramo_3d_com_def then_do_def [of "emit ev" for ev] emit_def)
qed

lemma ramo_3d_fits_le:
  "fits stage (snd (ramo_3d_sem env df w)) \<le> fits stage w + 1"
  "fits stage (snd (ramo_3d_com env df w)) \<le> fits stage w + 1"
  using prefix_fit_transform_fits [of stage env "frames w df"
      "w\<lparr>trace := trace w @ [StWrite txt_3d_sem_titulo, StWrite txt_3d_sem_descricao]\<rparr>"]
    prefix_fit_transform_fits [of stage env "frames w df"
      "w\<lparr>trace := trace w @ [StWrite txt_3d_com_titulo, StWrite txt_3d_com_descricao]\<rparr>"]
  by (simp_all add: ramo_3d_fits) (simp_all add: fits_def)

lemma ramo_3d_fits_ok:
  assumes "column_transformer env preprocessing (frames w df) = Inr Xt"
    and "pca env 3 RANDOM_STATE Xt = Inr Xr"
  shows "fits stage (snd (ramo_3d_sem env df w)) =
           fits stage w + (if stage = ''preprocessing'' \<or> stage = ''pca'' then 1 else 0)"
    and "fits stage (snd (ramo_3d_com env df w)) =
           fits stage w + (if stage = ''preprocessing'' \<or> stage = ''pca'' then 1 else 0)"
  using assms
  by (simp_all add: ramo_3d_fits prefix_fit_transform_ok) (auto simp: fits_def)

lemma ramo_3d_fits_clustering:
  "fits ''clustering'' (snd (ramo_3d_sem env df w)) = fits ''clustering'' w"
  "fits ''clustering'' (snd (ramo_3d_com env df w)) = fits ''clustering'' w"
proof -
  have "fits ''clustering'' (snd (prefix_fit_transform env X w0)) = fits ''clustering'' w0"
    for X w0
    by (rule only_adds_fits [OF only_adds_prefix_fit_transform
          [where P = "\<lambda>ev. ev \<noteq> Fit ''clustering''"]]) simp_all
  then show "fits ''clustering'' (snd (ramo_3d_sem env df w)) = fits ''clustering'' w"
    and "fits ''clustering'' (snd (ramo_3d_com env df w)) = fits ''clustering'' w"
    by (simp_all add: ramo_3d_fits) (simp_all add: fits_def)
qed

section \<open>The whole script\<close>

lemma apresentar_unfold:
  "apresentar env df dfc w =
     then_do (visualizacao env df dfc (selectbox env rotulo_seletor opcoes)) (\<lambda>_. conclusao)
       (w\<lparr>trace := trace w @ [StTitle txt_titulo, StWrite txt_introducao]\<rparr>)"
  by (simp add: apresentar_def then_do_def [of "emit ev" for ev] emit_def)

lemma then_conclusao:
  "charts (snd (then_do m (\<lambda>_. conclusao) w)) = charts (snd (m w))"
  "fits stage (snd (then_do m (\<lambda>_. conclusao) w)) = fits stage (snd (m w))"
proof -
  have c: "charts (snd (conclusao w')) = charts w'"
    and f: "fits stage (snd (conclusao w')) = fits stage w'" for w'
    using only_adds_conclusao [of w']
    by (auto intro: only_adds_charts only_adds_fits elim: is_text.elims is_chart.elims)
  show "charts (snd (then_do m (\<lambda>_. conclusao) w)) = charts (snd (m w))"
    by (cases "m w") (auto simp: then_do_def c split: sum.splits)
  show "fits stage (snd (then_do m (\<lambda>_. conclusao) w)) = fits stage (snd (m w))"
    by (cases "m w") (auto simp: then_do_def f split: sum.splits)
qed


lemma choosing_simps:
  "read_csv (choosing opcao env) = read_csv env"
  "column_transformer (choosing opcao env) = column_transformer env"
  "pca (choosing opcao env) = pca env"
  "kmeans (choosing opcao env) = kmeans env"
  "dump_error (choosing opcao env) = dump_error env"
  "selectbox (choosing opcao env) rotulo opcs = opcao"
  by (simp_all add: choosing_def)

lemma not_error_if_shown: "is_text ev \<or> is_chart ev \<or> is_fit ev \<Longrightarrow> \<not> is_error ev"
  by (cases ev) simp_all

lemma error_messages_app: "error_messages (snd (app env w)) = error_messages w"
  by (rule only_adds_errors [OF only_adds_app [where P = "\<lambda>ev. \<not> is_error ev"]])
     (simp_all add: not_error_if_shown)

section \<open>Counting the fits of a run\<close>

lemma visualizacao_fits:
  "fits stage (snd (visualizacao env df dfc opcao w)) \<le>
     fits stage w + (if opcao = opcao_3d_sem \<or> opcao = opcao_3d_com then 1 else 0)"
  "fits ''clustering'' (snd (visualizacao env df dfc opcao w)) = fits ''clustering'' w"
proof -
  have flat: "fits s (snd (visualizacao env df dfc opcao w)) = fits s w"
    if "opcao \<noteq> opcao_3d_sem" "opcao \<noteq> opcao_3d_com" for s
    by (rule only_adds_fits [OF only_adds_visualizacao_2d [OF that]]) simp
  show "fits stage (snd (visualizacao env df dfc opcao w)) \<le>
     fits stage w + (if opcao = opcao_3d_sem \<or> opcao = opcao_3d_com then 1 else 0)"
    using flat [of stage] ramo_3d_fits_le [of stage env df w]
    by (auto simp: visualizacao_simps)
  show "fits ''clustering'' (snd (visualizacao env df dfc opcao w)) = fits ''clustering'' w"
    using flat [of "''clustering''"] ramo_3d_fits_clustering [of env df w]
    by (cases "opcao = opcao_3d_sem \<or> opcao = opcao_3d_com") (auto simp: visualizacao_simps)
qed

lemma apresentar_fits:
  "fits stage (snd (apresentar env df dfc w)) =
     fits stage (snd (visualizacao env df dfc (selectbox env rotulo_seletor opcoes)
       (w\<lparr>trace := trace w @ [StTitle txt_titulo, StWrite txt_introducao]\<rparr>)))"
  by (simp add: apresentar_unfold then_conclusao)

lemma apresentar_charts:
  "charts (snd (apresentar env df dfc w)) =
     charts (snd (visualizacao env df dfc (selectbox env rotulo_seletor opcoes)
       (w\<lparr>trace := trace w @ [StTitle txt_titulo, StWrite txt_introducao]\<rparr>)))"
  by (simp add: apresentar_unfold then_conclusao)

lemma fits_after_title:
  "fits stage (w\<lparr>trace := trace w @ [StTitle a, StWrite b]\<rparr>) = fits stage w"
  by (simp add: fits_def)

lemma run_fits_any:
  "fits stage (snd (run env)) \<le>
     fits stage (snd (carregar_e_ajustar env world0)) +
     (if selectbox env rotulo_seletor opcoes = opcao_3d_sem \<or>
         selectbox env rotulo_seletor opcoes = opcao_3d_com then 1 else 0)"
  "fits ''clustering'' (snd (run env)) = fits ''clustering'' (snd (carregar_e_ajustar env world0))"
proof -
  let ?sel = "selectbox env rotulo_seletor opcoes"
  show "fits stage (snd (run env)) \<le>
     fits stage (snd (carregar_e_ajustar env world0)) +
     (if ?sel = opcao_3d_sem \<or> ?sel = opcao_3d_com then 1 else 0)"
  proof (cases rule: app_cases [of env world0])
    case (raised e w1)
    then show ?thesis by (simp add: run_def)
  next
    case (ok df dfc w1)
    with visualizacao_fits(1) [of stage env df dfc ?sel
        "w1\<lparr>trace := trace w1 @ [StTitle txt_titulo, StWrite txt_introducao]\<rparr>"]
    show ?thesis
      by (simp add: run_def apresentar_fits fits_after_title)
  qed
  show "fits ''clustering'' (snd (run env)) =
        fits ''clustering'' (snd (carregar_e_ajustar env world0))"
  proof (cases rule: app_cases [of env world0])
    case (raised e w1)
    then show ?thesis by (simp add: run_def)
  next
    case (ok df dfc w1)
    then show ?thesis
      by (simp add: run_def apresentar_fits visualizacao_fits(2) fits_after_title)
  qed
qed

lemma run_fits_ok:
  assumes "read_csv env DADOS = Inr t"
    and "column_transformer env preprocessing t = Inr Xt"
    and "pca env 3 RANDOM_STATE Xt = Inr Xr"
    and "kmeans env 5 RANDOM_STATE 10 Xr = Inr (labels, centers)"
    and "length labels = nrows t"
    and "dump_error env MODELO = None"
  shows "fits ''preprocessing'' (snd (run env)) =
           (if selectbox env rotulo_seletor opcoes = opcao_3d_sem \<or>
               selectbox env rotulo_seletor opcoes = opcao_3d_com then 2 else 1)"
    and "fits ''pca'' (snd (run env)) =
           (if selectbox env rotulo_seletor opcoes = opcao_3d_sem \<or>
               selectbox env rotulo_seletor opcoes = opcao_3d_com then 2 else 1)"
    and "fits ''clustering'' (snd (run env)) = 1"
proof -
  let ?sel = "selectbox env rotulo_seletor opcoes"
  note ok = carregar_ok [OF assms]
  define w1 where "w1 = snd (carregar_e_ajustar env world0)"
  define w2 where "w2 = w1\<lparr>trace := trace w1 @ [StTitle txt_titulo, StWrite txt_introducao]\<rparr>"
  have w1: "frames w1 0 = t" "fits ''preprocessing'' w1 = 1" "fits ''pca'' w1 = 1"
    "fits ''clustering'' w1 = 1"
    by (simp_all add: w1_def ok fits_def)
  have c: "carregar_e_ajustar env world0 = (Inr (0, 1), w1)"
    by (simp add: w1_def ok)
  have r: "fits s (snd (run env)) = fits s (snd (visualizacao env 0 1 ?sel w2))" for s
    by (simp add: run_def app_def then_do_def c apresentar_fits w2_def)
  have w2: "frames w2 0 = t" "fits s w2 = fits s w1" for s
    by (simp_all add: w2_def w1 fits_def)
  have ct: "column_transformer env preprocessing (frames w2 0) = Inr Xt"
    by (simp add: w2 assms)
  have three: "fits s (snd (visualizacao env 0 1 ?sel w2)) =
      fits s w1 + (if s = ''preprocessing'' \<or> s = ''pca'' then 1 else 0)"
    if "?sel = opcao_3d_sem \<or> ?sel = opcao_3d_com" for s
    using that ramo_3d_fits_ok [OF ct assms(3), of s] by (auto simp: visualizacao_simps w2)
  have flat: "fits s (snd (visualizacao env 0 1 ?sel w2)) = fits s w1"
    if "\<not> (?sel = opcao_3d_sem \<or> ?sel = opcao_3d_com)" for s
    using that only_adds_fits [OF only_adds_visualizacao_2d [of ?sel w2 env 0 1], of s]
    by (simp add: w2)
  show "fits ''preprocessing'' (snd (run env)) =
           (if ?sel = opcao_3d_sem \<or> ?sel = opcao_3d_com then 2 else 1)"
    and "fits ''pca'' (snd (run env)) =
           (if ?sel = opcao_3d_sem \<or> ?sel = opcao_3d_com then 2 else 1)"
    and "fits ''clustering'' (snd (run env)) = 1"
  proof -
    have "fits s (snd (run env)) =
        fits s w1 + (if (?sel = opcao_3d_sem \<or> ?sel = opcao_3d_com) \<and>
                        (s = ''preprocessing'' \<or> s = ''pca'') then 1 else 0)" for s
      using three [of s] flat [of s]
      by (cases "?sel = opcao_3d_sem \<or> ?sel = opcao_3d_com") (simp_all add: r)
    then show "fits ''preprocessing'' (snd (run env)) =
           (if ?sel = opcao_3d_sem \<or> ?sel = opcao_3d_com then 2 else 1)"
      and "fits ''pca'' (snd (run env)) =
           (if ?sel = opcao_3d_sem \<or> ?sel = opcao_3d_com then 2 else 1)"
      and "fits ''clustering'' (snd (run env)) = 1"
      by (simp_all add: w1)
  qed
qed

section \<open>The charts of a run in a 3-D view\<close>

lemma run_charts_3d:
  assumes "read_csv env DADOS = Inr t"
    and "column_transformer env preprocessing t = Inr Xt"
    and "pca env 3 RANDOM_STATE Xt = Inr Xr"
    and "kmeans env 5 RANDOM_STATE 10 Xr = Inr (labels, centers)"
    and "length labels = nrows t"
    and "dump_error env MODELO = None"
    and "coldata Xr = [xs, ys, zs]"
    and "length labels = shape0 Xr"
  shows "charts (snd (run (choosing opcao_3d_sem env))) =
     [Figure3D
       (map (\<lambda>i. \<lparr>sx = FloatCol xs, sy = FloatCol ys, sz = FloatCol zs,
                    scolor = PaletteColor ''Set2'' 5 i,
                    slabel = Some (''Cluster '' @ str_nat i),
                    smarker = None, ssize = None\<rparr>) [0..<5])
       ''pca0'' ''pca1'' ''pca2'']"
    and "coldata centers = cx # cy # cz # outros \<Longrightarrow>
     charts (snd (run (choosing opcao_3d_com env))) =
     [Figure3D
       (map (\<lambda>i. \<lparr>sx = FloatCol (keep (map (\<lambda>l. l = int i) labels) xs),
                    sy = FloatCol (keep (map (\<lambda>l. l = int i) labels) ys),
                    sz = FloatCol (keep (map (\<lambda>l. l = int i) labels) zs),
                    scolor = PaletteColor ''Set2'' 5 i,
                    slabel = Some (''Cluster '' @ str_nat i),
                    smarker = None, ssize = None\<rparr>) [0..<5] @
        [\<lparr>sx = FloatCol cx, sy = FloatCol cy, sz = FloatCol cz,
          scolor = NamedColor ''black'', slabel = None, smarker = Some ''x'',
          ssize = Some 200\<rparr>])
       ''pca0'' ''pca1'' ''pca2'']"
proof -
  define w1 where "w1 = snd (carregar_e_ajustar env world0)"
  define w2 where "w2 = w1\<lparr>trace := trace w1 @ [StTitle txt_titulo, StWrite txt_introducao]\<rparr>"
  note ok = carregar_ok [OF assms(1-6)]
  have ch: "read_csv (choosing opcao env) DADOS = Inr t"
    "column_transformer (choosing opcao env) preprocessing t = Inr Xt"
    "pca (choosing opcao env) 3 RANDOM_STATE Xt = Inr Xr"
    "kmeans (choosing opcao env) 5 RANDOM_STATE 10 Xr = Inr (labels, centers)"
    "dump_error (choosing opcao env) MODELO = None" for opcao
    using assms by (simp_all add: choosing_simps)
  have c: "carregar_e_ajustar (choosing opcao env) world0 = (Inr (0, 1), w1)" for opcao
    using carregar_ok [OF ch(1) ch(2) ch(3) ch(4) assms(5) ch(5), of opcao]
    by (simp add: w1_def ok)
  have w2: "frames w2 0 = t" "clustering_attrs (pipeline w2) = Some (labels, centers)"
    "charts w2 = []"
    by (simp_all add: w2_def w1_def ok charts_def)
  have r: "charts (snd (run (choosing opcao env))) =
           charts (snd (visualizacao (choosing opcao env) 0 1 opcao w2))" for opcao
    by (simp add: run_def app_def then_do_def c apresentar_charts choosing_simps w2_def)
  have ct: "column_transformer (choosing opcao env) preprocessing (frames w2 0) = Inr Xt"
    and p: "pca (choosing opcao env) 3 RANDOM_STATE Xt = Inr Xr" for opcao
    by (simp_all add: w2 assms choosing_simps)
  show "charts (snd (run (choosing opcao_3d_sem env))) =
     [Figure3D
       (map (\<lambda>i. \<lparr>sx = FloatCol xs, sy = FloatCol ys, sz = FloatCol zs,
                    scolor = PaletteColor ''Set2'' 5 i,
                    slabel = Some (''Cluster '' @ str_nat i),
                    smarker = None, ssize = None\<rparr>) [0..<5])
       ''pca0'' ''pca1'' ''pca2'']"
    using ramo_3d_sem_ok [OF ct p assms(7) w2(2) assms(8)]
    by (simp add: r visualizacao_simps w2)
  show "charts (snd (run (choosing opcao_3d_com env))) =
     [Figure3D
       (map (\<lambda>i. \<lparr>sx = FloatCol (keep (map (\<lambda>l. l = int i) labels) xs),
                    sy = FloatCol (keep (map (\<lambda>l. l = int i) labels) ys),
                    sz = FloatCol (keep (map (\<lambda>l. l = int i) labels) zs),
                    scolor = PaletteColor ''Set2'' 5 i,
                    slabel = Some (''Cluster '' @ str_nat i),
                    smarker = None, ssize = None\<rparr>) [0..<5] @
        [\<lparr>sx = FloatCol cx, sy = FloatCol cy, sz = FloatCol cz,
          scolor = NamedColor ''black'', slabel = None, smarker = Some ''x'',
          ssize = Some 200\<rparr>])
       ''pca0'' ''pca1'' ''pca2'']"
    if "coldata centers = cx # cy # cz # outros"
    using ramo_3d_com_ok [OF ct p assms(7) w2(2) assms(8) that]
    by (simp add: r visualizacao_simps w2)
qed

section \<open>The small environment, evaluated\<close>

lemma env_ex_simps:
  "read_csv env_ex DADOS = Inr tabela_ex"
  "column_transformer env_ex spec X = Inr escalado_ex"
  "pca env_ex n_components random_state Xt = Inr reduzido_ex"
  "kmeans env_ex n_clusters random_state n_init Xr = Inr ([2, 0, 4, 1, 3], centros_ex)"
  "dump_error env_ex path = None"
  by (simp_all add: env_ex_def)

lemma labels_ex_length: "length [2, 0, 4, 1, 3 :: int] = nrows tabela_ex"
  by (simp add: tabela_ex_def)

lemmas carregar_ex =
  carregar_ok [where env = env_ex, OF env_ex_simps(1) env_ex_simps(2) env_ex_simps(3)
    env_ex_simps(4) labels_ex_length env_ex_simps(5)]

lemma mundo_ex_eq:
  "carregar_e_ajustar env_ex world0 = (Inr (0, 1), mundo_ex)"
  by (simp add: mundo_ex_def carregar_ex)

lemma choosing_ex_simps:
  "read_csv (choosing opcao env_ex) DADOS = Inr tabela_ex"
  "column_transformer (choosing opcao env_ex) spec X = Inr escalado_ex"
  "pca (choosing opcao env_ex) n_components random_state Xt = Inr reduzido_ex"
  "kmeans (choosing opcao env_ex) n_clusters random_state n_init Xr =
     Inr ([2, 0, 4, 1, 3], centros_ex)"
  "dump_error (choosing opcao env_ex) path = None"
  by (simp_all add: choosing_simps env_ex_simps)

lemma mundo_ex_choosing:
  "carregar_e_ajustar (choosing opcao env_ex) world0 = (Inr (0, 1), mundo_ex)"
  using carregar_ok [where env = "choosing opcao env_ex", OF choosing_ex_simps(1)
      choosing_ex_simps(2) choosing_ex_simps(3) choosing_ex_simps(4) labels_ex_length
      choosing_ex_simps(5)]
  by (simp add: mundo_ex_def carregar_ex)

lemma mundo_ex_simps:
  "frames mundo_ex 0 = tabela_ex"
  "next_frame mundo_ex = 2"
  "clustering_attrs (pipeline mundo_ex) = Some ([2, 0, 4, 1, 3], centros_ex)"
  "trace mundo_ex =
     [StMarkdown css_customizado, Fit ''preprocessing'', Fit ''pca'', Fit ''clustering'']"
  by (simp_all add: mundo_ex_def carregar_ex)

section \<open>How an action ends\<close>




text \<open>Each 3-D view, from the point where the frame of reduced coordinates is built.\<close>

lemma ramo_3d_unfold:
  "ramo_3d_sem env df w =
     then_do (montar_df_pca env df)
       (\<lambda>df_pca. visualizar_cluster df_pca [''pca0'', ''pca1'', ''pca2''] 5 None False
                   (Some ''cluster''))
       (w\<lparr>trace := trace w @ [StWrite txt_3d_sem_titulo, StWrite txt_3d_sem_descricao]\<rparr>)"
  "ramo_3d_com env df w =
     then_do (montar_df_pca env df)
       (\<lambda>df_pca. then_do get_cluster_centers (\<lambda>centroids.
          visualizar_cluster df_pca [''pca0'', ''pca1'', ''pca2''] 5 (Some centroids) True
            (Some ''cluster'')))
       (w\<lparr>trace := trace w @ [StWrite txt_3d_com_titulo, StWrite txt_3d_com_descricao]\<rparr>)"
  by (simp_all add: ramo_3d_sem_def ramo_3d_com_def then_do_def [of "emit ev" for ev] emit_def)

lemma montar_df_pca_charts: "charts (snd (montar_df_pca env df w)) = charts w"
  by (rule only_adds_charts [OF only_adds_montar_df_pca [where P = is_fit]])
     (auto elim: is_fit.elims)

lemma charts_after_writes:
  "charts (w\<lparr>trace := trace w @ [StWrite a, StWrite b]\<rparr>) = charts w"
  by (simp add: charts_def)

lemma ramo_3d_sem_outcome:
  assumes "montar_df_pca env df
      (w\<lparr>trace := trace w @ [StWrite txt_3d_sem_titulo, StWrite txt_3d_sem_descricao]\<rparr>) =
      (r, w')"
  shows "case r of
      Inl e \<Rightarrow> ramo_3d_sem env df w = (Inl e, w')
    | Inr df_pca \<Rightarrow>
        (\<exists>fig. ramo_3d_sem env df w = (Inr (), w'\<lparr>trace := trace w' @ [StPyplot fig]\<rparr>) \<and>
               charts (snd (ramo_3d_sem env df w)) = charts w @ [fig])"
proof (cases r)
  case (Inl e)
  with assms show ?thesis by (simp add: ramo_3d_unfold then_do_def)
next
  case (Inr a)
  with assms have m: "montar_df_pca env df
      (w\<lparr>trace := trace w @ [StWrite txt_3d_sem_titulo, StWrite txt_3d_sem_descricao]\<rparr>) =
      (Inr a, w')"
    by simp
  from montar_df_pca_result [OF m] obtain sh xs ys zs labels where
    "frames w' a = \<lparr>nrows = sh,
       cols = [(''pca0'', FloatCol xs), (''pca1'', FloatCol ys), (''pca2'', FloatCol zs),
               (''cluster'', IntCol labels)]\<rparr>"
    by blast
  then have cs: "cols (frames w' a) =
      [(''pca0'', FloatCol xs), (''pca1'', FloatCol ys), (''pca2'', FloatCol zs),
       (''cluster'', IntCol labels)]"
    by simp
  have c: "charts w' = charts w"
    using montar_df_pca_charts [of env df
        "w\<lparr>trace := trace w @ [StWrite txt_3d_sem_titulo, StWrite txt_3d_sem_descricao]\<rparr>"] m
    by (simp add: charts_after_writes)
  have "ramo_3d_sem env df w =
      (Inr (), w'\<lparr>trace := trace w' @
         [StPyplot (Figure3D
            (map (\<lambda>i. \<lparr>sx = FloatCol xs, sy = FloatCol ys, sz = FloatCol zs,
                    scolor = PaletteColor ''Set2'' 5 i,
                    slabel = Some (''Cluster '' @ str_nat i),
                    smarker = None, ssize = None\<rparr>) [0..<5])
            ''pca0'' ''pca1'' ''pca2'')]\<rparr>)"
    by (simp add: ramo_3d_unfold then_do_def m
        visualizar_cluster_present [OF cluster_in_df_pca [OF m]] figura_sem [OF cs])
  moreover from this c have "charts (snd (ramo_3d_sem env df w)) = charts w @
         [Figure3D
            (map (\<lambda>i. \<lparr>sx = FloatCol xs, sy = FloatCol ys, sz = FloatCol zs,
                    scolor = PaletteColor ''Set2'' 5 i,
                    slabel = Some (''Cluster '' @ str_nat i),
                    smarker = None, ssize = None\<rparr>) [0..<5])
            ''pca0'' ''pca1'' ''pca2'']"
    by (simp add: charts_def)
  ultimately show ?thesis using Inr by auto
qed


lemma ramo_3d_com_outcome:
  assumes "montar_df_pca env df
      (w\<lparr>trace := trace w @ [StWrite txt_3d_com_titulo, StWrite txt_3d_com_descricao]\<rparr>) =
      (r, w')"
  shows "case r of
      Inl e \<Rightarrow> ramo_3d_com env df w = (Inl e, w')
    | Inr df_pca \<Rightarrow>
        (\<exists>labels centers. clustering_attrs (pipeline w) = Some (labels, centers) \<and>
           (if length (coldata centers) < 3
            then ramo_3d_com env df w = (Inl IndexError, w')
            else (\<exists>fig. ramo_3d_com env df w =
                           (Inr (), w'\<lparr>trace := trace w' @ [StPyplot fig]\<rparr>) \<and>
                         charts (snd (ramo_3d_com env df w)) = charts w @ [fig])))"
proof (cases r)
  case (Inl e)
  with assms show ?thesis by (simp add: ramo_3d_unfold then_do_def)
next
  case (Inr a)
  let ?w2 = "w\<lparr>trace := trace w @ [StWrite txt_3d_com_titulo, StWrite txt_3d_com_descricao]\<rparr>"
  from Inr assms have m: "montar_df_pca env df ?w2 = (Inr a, w')"
    by simp
  from montar_df_pca_result [OF m] obtain sh xs ys zs labels centers where
    d: "frames w' a = \<lparr>nrows = sh,
       cols = [(''pca0'', FloatCol xs), (''pca1'', FloatCol ys), (''pca2'', FloatCol zs),
               (''cluster'', IntCol labels)]\<rparr>"
    and at: "clustering_attrs (pipeline ?w2) = Some (labels, centers)"
    by blast
  from d have cs: "cols (frames w' a) =
      [(''pca0'', FloatCol xs), (''pca1'', FloatCol ys), (''pca2'', FloatCol zs),
       (''cluster'', IntCol labels)]"
    by simp
  from at have at0: "clustering_attrs (pipeline w) = Some (labels, centers)"
    by simp
  have "untouched ?w2 w'"
    using untouched_montar_df_pca [of ?w2 env df] m by simp
  with at have at': "clustering_attrs (pipeline w') = Some (labels, centers)"
    by (simp add: untouched_def)
  have c: "charts w' = charts w"
    using montar_df_pca_charts [of env df ?w2] m by (simp add: charts_after_writes)
  note g = cluster_in_df_pca [OF m]
  show ?thesis
  proof (cases "length (coldata centers) < 3")
    case True
    have "ramo_3d_com env df w = (Inl IndexError, w')"
      by (simp add: ramo_3d_unfold then_do_def m get_cluster_centers_def at'
          visualizar_cluster_present [OF g] figura_com_sem_centroides [OF cs True])
    with Inr at0 True show ?thesis by simp
  next
    case False
    then have "3 \<le> length (coldata centers)" by simp
    then obtain cx cy cz outros where cc: "coldata centers = cx # cy # cz # outros"
      by (auto simp: numeral_3_eq_3 Suc_le_length_iff)
    let ?fig = "Figure3D
       (map (\<lambda>i. \<lparr>sx = FloatCol (keep (map (\<lambda>l. l = int i) labels) xs),
                    sy = FloatCol (keep (map (\<lambda>l. l = int i) labels) ys),
                    sz = FloatCol (keep (map (\<lambda>l. l = int i) labels) zs),
                    scolor = PaletteColor ''Set2'' 5 i,
                    slabel = Some (''Cluster '' @ str_nat i),
                    smarker = None, ssize = None\<rparr>) [0..<5] @
        [\<lparr>sx = FloatCol cx, sy = FloatCol cy, sz = FloatCol cz,
          scolor = NamedColor ''black'', slabel = None, smarker = Some ''x'',
          ssize = Some 200\<rparr>])
       ''pca0'' ''pca1'' ''pca2''"
    have r: "ramo_3d_com env df w = (Inr (), w'\<lparr>trace := trace w' @ [StPyplot ?fig]\<rparr>)"
      by (simp add: ramo_3d_unfold then_do_def m get_cluster_centers_def at'
          visualizar_cluster_present [OF g] figura_com [OF cs cc])
    with c have "charts (snd (ramo_3d_com env df w)) = charts w @ [?fig]"
      by (simp add: charts_def)
    with r Inr at0 False show ?thesis by auto
  qed
qed


section \<open>How a run ends\<close>

lemma montar_df_pca_fst:
  assumes "column_transformer env preprocessing (frames w df) = Inr Xt"
    and "pca env 3 RANDOM_STATE Xt = Inr Xr"
    and "clustering_attrs (pipeline w) = Some (labels, centers)"
  shows "fst (montar_df_pca env df w) =
     (if length (coldata Xr) \<noteq> 3 \<or> length labels \<noteq> shape0 Xr then Inl ValueError
      else Inr (next_frame w))"
  using assms
  by (simp add: montar_df_pca_def prefix_fit_transform_ok action_defs DataFrame_def pca_names
      setitem_def)

lemma ramo_3d_fst:
  assumes "column_transformer env preprocessing (frames w df) = Inr Xt"
    and "pca env 3 RANDOM_STATE Xt = Inr Xr"
    and "clustering_attrs (pipeline w) = Some (labels, centers)"
  shows "fst (ramo_3d_sem env df w) =
     (if length (coldata Xr) \<noteq> 3 \<or> length labels \<noteq> shape0 Xr then Inl ValueError
      else Inr ())"
    and "fst (ramo_3d_com env df w) =
     (if length (coldata Xr) \<noteq> 3 \<or> length labels \<noteq> shape0 Xr then Inl ValueError
      else if length (coldata centers) < 3 then Inl IndexError
      else Inr ())"
proof -
  let ?s = "w\<lparr>trace := trace w @ [StWrite txt_3d_sem_titulo, StWrite txt_3d_sem_descricao]\<rparr>"
  let ?c = "w\<lparr>trace := trace w @ [StWrite txt_3d_com_titulo, StWrite txt_3d_com_descricao]\<rparr>"
  have fs: "fst (montar_df_pca env df ?s) =
     (if length (coldata Xr) \<noteq> 3 \<or> length labels \<noteq> shape0 Xr then Inl ValueError
      else Inr (next_frame w))"
    using montar_df_pca_fst [of env ?s df Xt Xr labels centers] assms by simp
  have fc: "fst (montar_df_pca env df ?c) =
     (if length (coldata Xr) \<noteq> 3 \<or> length labels \<noteq> shape0 Xr then Inl ValueError
      else Inr (next_frame w))"
    using montar_df_pca_fst [of env ?c df Xt Xr labels centers] assms by simp
  obtain rs ws where ms: "montar_df_pca env df ?s = (rs, ws)"
    by (cases "montar_df_pca env df ?s")
  obtain rc wc where mc: "montar_df_pca env df ?c = (rc, wc)"
    by (cases "montar_df_pca env df ?c")
  show "fst (ramo_3d_sem env df w) =
     (if length (coldata Xr) \<noteq> 3 \<or> length labels \<noteq> shape0 Xr then Inl ValueError
      else Inr ())"
    using ramo_3d_sem_outcome [OF ms] fs ms
    by (cases rs) (auto split: if_splits)
  show "fst (ramo_3d_com env df w) =
     (if length (coldata Xr) \<noteq> 3 \<or> length labels \<noteq> shape0 Xr then Inl ValueError
      else if length (coldata centers) < 3 then Inl IndexError
      else Inr ())"
    using ramo_3d_com_outcome [OF mc] fc mc assms(3)
    by (cases rc) (auto split: if_splits)
qed










section \<open>The claims\<close>

text \<open>
  C7. When the selected mode is none of the five option names, the chain of comparisons
  of lines 104 to 159 does nothing at all: it returns normally and leaves the world as it
  was, so it shows no chart and no error message; the whole run with such a selection
  shows no chart and no error message either.
\<close>

theorem unrecognized_option_falls_through:
  assumes "opcao \<notin> set opcoes"
  shows "visualizacao env df df_clustered opcao w = (Inr (), w) \<and>
         charts (snd (run (choosing opcao env))) = [] \<and>
         error_messages (snd (run (choosing opcao env))) = []"
proof -
  let ?env = "choosing opcao env"
  have v: "visualizacao env' df' dfc' opcao w' = (Inr (), w')" for env' df' dfc' w'
    using assms by (simp add: visualizacao_other ret_def)
  let ?P = "\<lambda>ev. is_text ev \<or> is_fit ev"
  have c: "only_adds ?P world0 (snd (carregar_e_ajustar ?env world0))"
    by (rule only_adds_carregar) simp_all
  have a: "only_adds ?P w' (snd (apresentar ?env a b w'))" for a b w'
    unfolding apresentar_def
    by (intro only_adds_then_do only_adds_emit only_adds_mono [OF only_adds_conclusao])
       (simp_all add: choosing_simps v only_adds_refl)
  have "only_adds ?P world0 (snd (app ?env world0))"
  proof (cases rule: app_cases [of ?env world0])
    case (raised e w1)
    with c show ?thesis by simp
  next
    case (ok df' dfc' w1)
    with c a [of w1 df' dfc'] show ?thesis
      by (auto intro: only_adds_trans)
  qed
  then have "charts (snd (app ?env world0)) = charts world0"
    by (rule only_adds_charts) (auto elim: is_text.elims is_fit.elims)
  then have "charts (snd (run ?env)) = []"
    by (simp add: run_def world0_def charts_def)
  moreover have "error_messages (snd (run ?env)) = []"
    by (simp add: run_def error_messages_app) (simp add: world0_def error_messages_def)
  ultimately show ?thesis using v by simp
qed

theorem unrecognized_option_falls_through_witness:
  "''Histograma'' \<notin> set opcoes \<and>
   visualizacao env_ex 0 1 ''Histograma'' world0 = (Inr (), world0) \<and>
   charts (snd (run (choosing ''Histograma'' env_ex))) = []"
proof -
  have h: "''Histograma'' \<notin> set opcoes"
    by (simp add: opcoes_def opcao_pairplot_def opcao_boxplot_cluster_def
        opcao_boxplot_genero_def opcao_3d_sem_def opcao_3d_com_def)
  from unrecognized_option_falls_through [OF h, of env_ex 0 1 world0] h
  show ?thesis by simp
qed




text \<open>
  C10. In both 3-D views the frame handed to \<^verbatim>\<open>visualizar_cluster\<close> has just been given
  its \<^verbatim>\<open>cluster\<close> column, so the guard finds it: neither view ever shows an error
  message. Once the frame is built, the view without dispersion always renders its chart;
  the view with dispersion renders it when the centres have at least three coordinates,
  which the call needs for the centroid marks, and raises \<^verbatim>\<open>IndexError\<close> otherwise.
  So each of the two views, whenever it returns normally, has rendered exactly one chart,
  and it returns normally whenever its frame of reduced coordinates gets built (and, with
  dispersion, the centres are three wide).
\<close>

theorem cluster_column_present_at_call_sites:
  "(montar_df_pca env df w = (Inr df_pca, w') \<longrightarrow>
      ''cluster'' \<in> set (columns_of (frames w' df_pca)) \<and>
      (\<exists>fig. visualizar_cluster df_pca [''pca0'', ''pca1'', ''pca2''] 5 None False
                (Some ''cluster'') w' =
              (Inr (), w'\<lparr>trace := trace w' @ [StPyplot fig]\<rparr>)) \<and>
      (\<forall>c::ndarray. 3 \<le> length (coldata c) \<longrightarrow>
         (\<exists>fig. visualizar_cluster df_pca [''pca0'', ''pca1'', ''pca2''] 5 (Some c) True
                   (Some ''cluster'') w' =
                 (Inr (), w'\<lparr>trace := trace w' @ [StPyplot fig]\<rparr>))) \<and>
      (\<forall>c::ndarray. length (coldata c) < 3 \<longrightarrow>
         visualizar_cluster df_pca [''pca0'', ''pca1'', ''pca2''] 5 (Some c) True
           (Some ''cluster'') w' = (Inl IndexError, w'))) \<and>
   error_messages (snd (ramo_3d_sem env df w)) = error_messages w \<and>
   error_messages (snd (ramo_3d_com env df w)) = error_messages w \<and>
   (\<forall>a v. montar_df_pca env df
             (w\<lparr>trace := trace w @ [StWrite txt_3d_sem_titulo, StWrite txt_3d_sem_descricao]\<rparr>) =
           (Inr a, v) \<longrightarrow>
      (\<exists>fig. ramo_3d_sem env df w = (Inr (), v\<lparr>trace := trace v @ [StPyplot fig]\<rparr>))) \<and>
   (\<forall>a v labels centers.
      montar_df_pca env df
        (w\<lparr>trace := trace w @ [StWrite txt_3d_com_titulo, StWrite txt_3d_com_descricao]\<rparr>) =
      (Inr a, v) \<and>
      clustering_attrs (pipeline w) = Some (labels, centers) \<and>
      3 \<le> length (coldata centers) \<longrightarrow>
      (\<exists>fig. ramo_3d_com env df w = (Inr (), v\<lparr>trace := trace v @ [StPyplot fig]\<rparr>))) \<and>
   (fst (ramo_3d_sem env df w) = Inr () \<longrightarrow>
      (\<exists>fig. charts (snd (ramo_3d_sem env df w)) = charts w @ [fig])) \<and>
   (fst (ramo_3d_com env df w) = Inr () \<longrightarrow>
      (\<exists>fig. charts (snd (ramo_3d_com env df w)) = charts w @ [fig]))"
proof -
  let ?ws = "w\<lparr>trace := trace w @ [StWrite txt_3d_sem_titulo, StWrite txt_3d_sem_descricao]\<rparr>"
  let ?wc = "w\<lparr>trace := trace w @ [StWrite txt_3d_com_titulo, StWrite txt_3d_com_descricao]\<rparr>"
  have sem: "error_messages (snd (ramo_3d_sem env df w)) = error_messages w"
    by (rule only_adds_errors [OF only_adds_ramo_3d_sem [where P = "\<lambda>ev. \<not> is_error ev"]])
       (simp_all add: not_error_if_shown)
  have com: "error_messages (snd (ramo_3d_com env df w)) = error_messages w"
    by (rule only_adds_errors [OF only_adds_ramo_3d_com [where P = "\<lambda>ev. \<not> is_error ev"]])
       (simp_all add: not_error_if_shown)
  have call: "''cluster'' \<in> set (columns_of (frames w' df_pca)) \<and>
      (\<exists>fig. visualizar_cluster df_pca [''pca0'', ''pca1'', ''pca2''] 5 None False
                (Some ''cluster'') w' =
              (Inr (), w'\<lparr>trace := trace w' @ [StPyplot fig]\<rparr>)) \<and>
      (\<forall>c::ndarray. 3 \<le> length (coldata c) \<longrightarrow>
         (\<exists>fig. visualizar_cluster df_pca [''pca0'', ''pca1'', ''pca2''] 5 (Some c) True
                   (Some ''cluster'') w' =
                 (Inr (), w'\<lparr>trace := trace w' @ [StPyplot fig]\<rparr>))) \<and>
      (\<forall>c::ndarray. length (coldata c) < 3 \<longrightarrow>
         visualizar_cluster df_pca [''pca0'', ''pca1'', ''pca2''] 5 (Some c) True
           (Some ''cluster'') w' = (Inl IndexError, w'))"
    if m: "montar_df_pca env df w = (Inr df_pca, w')"
  proof -
    from montar_df_pca_result [OF m] obtain sh xs ys zs labels where
      d: "frames w' df_pca = \<lparr>nrows = sh,
         cols = [(''pca0'', FloatCol xs), (''pca1'', FloatCol ys), (''pca2'', FloatCol zs),
                 (''cluster'', IntCol labels)]\<rparr>"
      by blast
    then have cs: "cols (frames w' df_pca) =
        [(''pca0'', FloatCol xs), (''pca1'', FloatCol ys), (''pca2'', FloatCol zs),
         (''cluster'', IntCol labels)]"
      by simp
    have g: "\<not> falta_coluna (Some ''cluster'') (frames w' df_pca)"
      by (rule cluster_in_df_pca [OF m])
    have 1: "''cluster'' \<in> set (columns_of (frames w' df_pca))"
      using g by (simp add: falta_coluna_def)
    have 2: "\<exists>fig. visualizar_cluster df_pca [''pca0'', ''pca1'', ''pca2''] 5 None False
                (Some ''cluster'') w' =
              (Inr (), w'\<lparr>trace := trace w' @ [StPyplot fig]\<rparr>)"
      by (simp add: visualizar_cluster_present [OF g] figura_sem [OF cs]) (rule exI, rule refl)
    have 3: "\<exists>fig. visualizar_cluster df_pca [''pca0'', ''pca1'', ''pca2''] 5 (Some c) True
                   (Some ''cluster'') w' =
                 (Inr (), w'\<lparr>trace := trace w' @ [StPyplot fig]\<rparr>)"
      if "3 \<le> length (coldata c)" for c :: ndarray
    proof -
      from that obtain cx cy cz outros where "coldata c = cx # cy # cz # outros"
        by (auto simp: numeral_3_eq_3 Suc_le_length_iff)
      then show ?thesis
        by (simp add: visualizar_cluster_present [OF g] figura_com [OF cs])
           (rule exI, rule refl)
    qed
    have 4: "visualizar_cluster df_pca [''pca0'', ''pca1'', ''pca2''] 5 (Some c) True
           (Some ''cluster'') w' = (Inl IndexError, w')"
      if "length (coldata c) < 3" for c :: ndarray
      by (simp add: visualizar_cluster_present [OF g] figura_com_sem_centroides [OF cs that])
    from 1 2 3 4 show ?thesis by blast
  qed
  have sem_built: "\<exists>fig. ramo_3d_sem env df w = (Inr (), v\<lparr>trace := trace v @ [StPyplot fig]\<rparr>)"
    if "montar_df_pca env df ?ws = (Inr a, v)" for a v
    using ramo_3d_sem_outcome [OF that] by auto
  have com_built: "\<exists>fig. ramo_3d_com env df w = (Inr (), v\<lparr>trace := trace v @ [StPyplot fig]\<rparr>)"
    if "montar_df_pca env df ?wc = (Inr a, v) \<and>
        clustering_attrs (pipeline w) = Some (labels, centers) \<and>
        3 \<le> length (coldata centers)" for a v labels centers
    using ramo_3d_com_outcome [of env df w "Inr a" v] that by auto
  have sem_chart: "\<exists>fig. charts (snd (ramo_3d_sem env df w)) = charts w @ [fig]"
    if f: "fst (ramo_3d_sem env df w) = Inr ()"
  proof -
    obtain r v where m: "montar_df_pca env df ?ws = (r, v)"
      by (cases "montar_df_pca env df ?ws")
    from ramo_3d_sem_outcome [OF m] f show ?thesis
      by (cases r) auto
  qed
  have com_chart: "\<exists>fig. charts (snd (ramo_3d_com env df w)) = charts w @ [fig]"
    if f: "fst (ramo_3d_com env df w) = Inr ()"
  proof -
    obtain r v where m: "montar_df_pca env df ?wc = (r, v)"
      by (cases "montar_df_pca env df ?wc")
    from ramo_3d_com_outcome [OF m] f show ?thesis
      by (cases r) (auto split: if_splits)
  qed
  from sem com call sem_built com_built sem_chart com_chart show ?thesis
    by blast
qed

theorem cluster_column_present_at_call_sites_witness:
  "fst (montar_df_pca env_ex 0 mundo_ex) = Inr 2 \<and>
   3 \<le> length (coldata centros_ex) \<and>
   ''cluster'' \<in> set (columns_of (frames (snd (montar_df_pca env_ex 0 mundo_ex)) 2)) \<and>
   (\<exists>fig. visualizar_cluster 2 [''pca0'', ''pca1'', ''pca2''] 5 (Some centros_ex) True
            (Some ''cluster'') (snd (montar_df_pca env_ex 0 mundo_ex)) =
          (Inr (), (snd (montar_df_pca env_ex 0 mundo_ex))
             \<lparr>trace := trace (snd (montar_df_pca env_ex 0 mundo_ex)) @ [StPyplot fig]\<rparr>)) \<and>
   length (coldata \<lparr>shape0 = 0, coldata = []\<rparr>) < 3 \<and>
   visualizar_cluster 2 [''pca0'', ''pca1'', ''pca2''] 5 (Some \<lparr>shape0 = 0, coldata = []\<rparr>) True
     (Some ''cluster'') (snd (montar_df_pca env_ex 0 mundo_ex)) =
   (Inl IndexError, snd (montar_df_pca env_ex 0 mundo_ex)) \<and>
   fst (ramo_3d_sem env_ex 0 mundo_ex) = Inr () \<and>
   (\<exists>fig. charts (snd (ramo_3d_sem env_ex 0 mundo_ex)) = charts mundo_ex @ [fig]) \<and>
   fst (ramo_3d_com env_ex 0 mundo_ex) = Inr () \<and>
   (\<exists>fig. charts (snd (ramo_3d_com env_ex 0 mundo_ex)) = charts mundo_ex @ [fig])"
proof -
  have f: "fst (montar_df_pca env_ex 0 mundo_ex) = Inr 2"
    by (simp add: montar_df_pca_def prefix_fit_transform_ok [where Xt = escalado_ex]
        action_defs DataFrame_def pca_names setitem_def env_ex_simps mundo_ex_simps
        reduzido_ex_def)
  then have m: "montar_df_pca env_ex 0 mundo_ex = (Inr 2, snd (montar_df_pca env_ex 0 mundo_ex))"
    by (simp add: prod_eq_iff)
  have c: "3 \<le> length (coldata centros_ex)"
    by (simp add: centros_ex_def)
  have e: "length (coldata \<lparr>shape0 = 0, coldata = []\<rparr>) < 3"
    by simp
  have s: "fst (ramo_3d_sem env_ex 0 mundo_ex) = Inr ()"
    and k: "fst (ramo_3d_com env_ex 0 mundo_ex) = Inr ()"
    using ramo_3d_fst [where env = env_ex and w = mundo_ex and df = 0,
        OF env_ex_simps(2) env_ex_simps(3) mundo_ex_simps(3)]
    by (simp_all add: reduzido_ex_def centros_ex_def)
  from cluster_column_present_at_call_sites
    [of env_ex 0 mundo_ex 2 "snd (montar_df_pca env_ex 0 mundo_ex)"] m c e f s k
  show ?thesis by blast
qed

text \<open>
  C9. The table read at line 47 lives at address 0 and is never changed: it is still the
  table read after the start of the script and at the end of every run, whatever the
  libraries answer and whichever view is selected, also when the run ends in an exception.
  The labels go into a copy at another address, which is the table with the column
  \<^verbatim>\<open>cluster\<close> set, and which no later step changes either. (The estimators receive the
  table as a value; that they do not modify their argument is how they are modelled.)
\<close>

theorem loaded_table_is_never_changed:
  assumes "read_csv env DADOS = Inr t"
  shows "frames (snd (carregar_e_ajustar env world0)) 0 = t \<and>
         frames (snd (run env)) 0 = t \<and>
         (\<forall>df dfc w1. carregar_e_ajustar env world0 = (Inr (df, dfc), w1) \<longrightarrow>
            df = 0 \<and> dfc = 1 \<and>
            (\<exists>labels. setitem t ''cluster'' (IntCol labels) = Inr (frames w1 dfc)) \<and>
            frames (snd (run env)) dfc = frames w1 dfc)"
proof -
  from carregar_any [of env _ t] assms
  have start: "frames (snd (carregar_e_ajustar env world0)) 0 = t"
    and alloc: "0 < next_frame (snd (carregar_e_ajustar env world0))"
    by simp_all
  have kept: "frames (snd (run env)) a = frames (snd (carregar_e_ajustar env world0)) a"
    if "a < next_frame (snd (carregar_e_ajustar env world0))" for a
  proof (cases rule: app_cases [of env world0])
    case (raised e w1)
    then show ?thesis by (simp add: run_def)
  next
    case (ok df dfc w1)
    with that untouched_apresentar [of w1 env df dfc] show ?thesis
      by (simp add: run_def untouched_def)
  qed
  have copy: "df = 0 \<and> dfc = 1 \<and>
            (\<exists>labels. setitem t ''cluster'' (IntCol labels) = Inr (frames w1 dfc)) \<and>
            frames (snd (run env)) dfc = frames w1 dfc"
    if c: "carregar_e_ajustar env world0 = (Inr (df, dfc), w1)" for df dfc w1
  proof -
    from carregar_inversion [OF c] assms obtain Xt Xr labels centers where
      env: "column_transformer env preprocessing t = Inr Xt"
        "pca env 3 RANDOM_STATE Xt = Inr Xr"
        "kmeans env 5 RANDOM_STATE 10 Xr = Inr (labels, centers)"
        "length labels = nrows t" "dump_error env MODELO = None"
      by auto
    note ok = carregar_ok [OF assms env]
    from c ok have r: "df = 0" "dfc = 1"
      and w1: "frames w1 1 = t\<lparr>cols := set_col ''cluster'' (IntCol labels) (cols t)\<rparr>"
        "next_frame w1 = 2"
      by auto
    from env(4) w1 r have "setitem t ''cluster'' (IntCol labels) = Inr (frames w1 dfc)"
      by (simp add: setitem_def)
    moreover from kept [of 1] c w1 r have "frames (snd (run env)) dfc = frames w1 dfc"
      by simp
    ultimately show ?thesis using r by blast
  qed
  from start kept [OF alloc] copy show ?thesis by simp
qed

theorem loaded_table_is_never_changed_witness:
  "read_csv (choosing opcao_3d_com env_ex) DADOS = Inr tabela_ex \<and>
   frames (snd (run (choosing opcao_3d_com env_ex))) 0 = tabela_ex \<and>
   frames (snd (run (choosing opcao_3d_com env_ex))) 1 = frames mundo_ex 1"
  using loaded_table_is_never_changed [OF choosing_ex_simps(1), of opcao_3d_com]
    mundo_ex_choosing [of opcao_3d_com]
  by (simp add: choosing_ex_simps)

text \<open>
  C8. Whichever view is selected, a run whose load, fit, labelling and dump raise nothing
  leaves exactly one file, at \<^verbatim>\<open>modelos/pipeline_preprocessing_pca_clustering.pkl\<close>, holding
  the pipeline with its three stages fitted; and no run, whatever happens in it, writes
  to any other path.
\<close>

theorem fitted_pipeline_is_dumped:
  "dom (files (snd (run env))) \<subseteq> {MODELO} \<and>
   (read_csv env DADOS = Inr t \<and>
    column_transformer env preprocessing t = Inr Xt \<and>
    pca env 3 RANDOM_STATE Xt = Inr Xr \<and>
    kmeans env 5 RANDOM_STATE 10 Xr = Inr (labels, centers) \<and>
    length labels = nrows t \<and>
    dump_error env MODELO = None \<longrightarrow>
    (\<forall>opcao. files (snd (run (choosing opcao env))) =
       [MODELO \<mapsto> \<lparr>preprocessing_fitted = True, pca_fitted = True,
                     clustering_attrs = Some (labels, centers)\<rparr>]))"
proof -
  have kept: "files (snd (run env')) = files (snd (carregar_e_ajustar env' world0))" for env'
  proof (cases rule: app_cases [of env' world0])
    case (raised e w1)
    then show ?thesis by (simp add: run_def)
  next
    case (ok df dfc w1)
    with untouched_apresentar [of w1 env' df dfc] show ?thesis
      by (simp add: run_def untouched_def)
  qed
  have "dom (files (snd (run env))) \<subseteq> {MODELO}"
    using carregar_any [of env] by (simp add: kept)
  moreover have "files (snd (run (choosing opcao env))) =
       [MODELO \<mapsto> \<lparr>preprocessing_fitted = True, pca_fitted = True,
                     clustering_attrs = Some (labels, centers)\<rparr>]"
    if "read_csv env DADOS = Inr t" "column_transformer env preprocessing t = Inr Xt"
      "pca env 3 RANDOM_STATE Xt = Inr Xr"
      "kmeans env 5 RANDOM_STATE 10 Xr = Inr (labels, centers)"
      "length labels = nrows t" "dump_error env MODELO = None" for opcao
    using that carregar_ok [where env = "choosing opcao env" and t = t and Xt = Xt and Xr = Xr
        and labels = labels and centers = centers]
    by (simp add: kept choosing_simps)
  ultimately show ?thesis by blast
qed

theorem fitted_pipeline_is_dumped_witness:
  "read_csv env_ex DADOS = Inr tabela_ex \<and>
   dump_error env_ex MODELO = None \<and>
   files (snd (run (choosing opcao_3d_sem env_ex))) =
     [MODELO \<mapsto> \<lparr>preprocessing_fitted = True, pca_fitted = True,
                   clustering_attrs = Some ([2, 0, 4, 1, 3], centros_ex)\<rparr>] \<and>
   files (snd (run (choosing opcao_boxplot_genero env_ex))) =
     [MODELO \<mapsto> \<lparr>preprocessing_fitted = True, pca_fitted = True,
                   clustering_attrs = Some ([2, 0, 4, 1, 3], centros_ex)\<rparr>]"
  using fitted_pipeline_is_dumped [of env_ex tabela_ex escalado_ex reduzido_ex
      "[2, 0, 4, 1, 3]" centros_ex]
    labels_ex_length
  by (simp add: env_ex_simps)


text \<open>
  C4, as stated: no stage of the pipeline is fitted a second time in a run. It fails in
  the 3-D views: with the view without dispersion selected, the preprocessing stage and
  the PCA stage are each fitted twice, at line 66 and again at line 132.
\<close>

theorem fitted_once_counterexample:
  "fits ''preprocessing'' (snd (run (choosing opcao_3d_sem env_ex))) = 2 \<and>
   fits ''pca'' (snd (run (choosing opcao_3d_sem env_ex))) = 2 \<and>
   \<not> fits ''pca'' (snd (run (choosing opcao_3d_sem env_ex))) \<le> 1"
  using run_fits_ok(1,2) [OF choosing_ex_simps(1) choosing_ex_simps(2) choosing_ex_simps(3)
      choosing_ex_simps(4) labels_ex_length choosing_ex_simps(5), of opcao_3d_sem]
  by (simp add: choosing_simps)

text \<open>
  C4, amended. The whole pipeline is fitted once, at line 66, and the clustering stage is
  never fitted again: in no run is it fitted more than once. The pair plot and the two
  box plots fit nothing more, so there no stage is fitted more than once. Each 3-D view
  fits the preprocessing and PCA stages a second time, through
  \<^verbatim>\<open>pipeline[:-1].fit_transform(df)\<close>, and no stage is ever fitted more than twice. When
  the start of the script completes, the counts are exact: clustering once, the two other
  stages twice in a 3-D view and once otherwise.
\<close>

theorem stages_fitted_per_run:
  "fits ''clustering'' (snd (run env)) \<le> 1 \<and>
   fits stage (snd (run env)) \<le> 2 \<and>
   (selectbox env rotulo_seletor opcoes \<noteq> opcao_3d_sem \<and>
    selectbox env rotulo_seletor opcoes \<noteq> opcao_3d_com \<longrightarrow>
      fits stage (snd (run env)) \<le> 1) \<and>
   (fst (carregar_e_ajustar env world0) = Inr refs \<longrightarrow>
      fits ''clustering'' (snd (run env)) = 1 \<and>
      fits ''preprocessing'' (snd (run env)) =
        (if selectbox env rotulo_seletor opcoes = opcao_3d_sem \<or>
            selectbox env rotulo_seletor opcoes = opcao_3d_com then 2 else 1) \<and>
      fits ''pca'' (snd (run env)) =
        (if selectbox env rotulo_seletor opcoes = opcao_3d_sem \<or>
            selectbox env rotulo_seletor opcoes = opcao_3d_com then 2 else 1))"
proof -
  let ?sel = "selectbox env rotulo_seletor opcoes"
  have start: "fits s (snd (carregar_e_ajustar env world0)) \<le> 1" for s
    using carregar_any [of env s] by simp
  have 1: "fits ''clustering'' (snd (run env)) \<le> 1"
    using start [of "''clustering''"] by (simp add: run_fits_any(2))
  have 2: "fits stage (snd (run env)) \<le> 2"
    using start [of stage] run_fits_any(1) [of stage env] by (simp split: if_splits)
  have 3: "fits stage (snd (run env)) \<le> 1"
    if "?sel \<noteq> opcao_3d_sem \<and> ?sel \<noteq> opcao_3d_com"
    using that start [of stage] run_fits_any(1) [of stage env] by simp
  have 4: "fits ''clustering'' (snd (run env)) = 1 \<and>
      fits ''preprocessing'' (snd (run env)) =
        (if ?sel = opcao_3d_sem \<or> ?sel = opcao_3d_com then 2 else 1) \<and>
      fits ''pca'' (snd (run env)) =
        (if ?sel = opcao_3d_sem \<or> ?sel = opcao_3d_com then 2 else 1)"
    if "fst (carregar_e_ajustar env world0) = Inr refs"
  proof -
    from that have "carregar_e_ajustar env world0 = (Inr refs, snd (carregar_e_ajustar env world0))"
      by (simp add: prod_eq_iff)
    from carregar_inversion [OF this] obtain t Xt Xr labels centers where
      "read_csv env DADOS = Inr t" "column_transformer env preprocessing t = Inr Xt"
      "pca env 3 RANDOM_STATE Xt = Inr Xr"
      "kmeans env 5 RANDOM_STATE 10 Xr = Inr (labels, centers)"
      "length labels = nrows t" "dump_error env MODELO = None"
      by blast
    from run_fits_ok [OF this] show ?thesis by simp
  qed
  from 1 2 3 4 show ?thesis by blast
qed

theorem stages_fitted_per_run_witness:
  "selectbox env_ex rotulo_seletor opcoes \<noteq> opcao_3d_sem \<and>
   selectbox env_ex rotulo_seletor opcoes \<noteq> opcao_3d_com \<and>
   fits ''pca'' (snd (run env_ex)) \<le> 1 \<and>
   fst (carregar_e_ajustar (choosing opcao_3d_com env_ex) world0) = Inr (0, 1) \<and>
   fits ''clustering'' (snd (run (choosing opcao_3d_com env_ex))) = 1 \<and>
   fits ''preprocessing'' (snd (run (choosing opcao_3d_com env_ex))) = 2"
proof -
  have sel: "selectbox env_ex rotulo_seletor opcoes \<noteq> opcao_3d_sem \<and>
             selectbox env_ex rotulo_seletor opcoes \<noteq> opcao_3d_com"
    using opcoes_distinct by (auto simp: env_ex_def opcoes_def)
  have ok: "fst (carregar_e_ajustar (choosing opcao_3d_com env_ex) world0) = Inr (0, 1)"
    by (simp add: mundo_ex_choosing)
  from stages_fitted_per_run [of env_ex "''pca''" "(0, 1)"]
    stages_fitted_per_run [of "choosing opcao_3d_com env_ex" "''pca''" "(0, 1)"] sel ok
  show ?thesis by (simp add: choosing_simps)
qed

text \<open>
  C3, as stated: the two 3-D views differ only in whether centroids and scatter points
  are overlaid on the same chart, so the point series they share would be the same. They
  are not: without dispersion the chart does draw scatter points, all five customers in
  each of its five series; with dispersion each series holds the one customer of its
  cluster, and a sixth scatter call marks the centres.
\<close>

theorem views_3d_counterexample:
  "map sx (concat (map artists (charts (snd (run (choosing opcao_3d_sem env_ex)))))) =
     [FloatCol [1, 2, 3, 4, 5], FloatCol [1, 2, 3, 4, 5], FloatCol [1, 2, 3, 4, 5],
      FloatCol [1, 2, 3, 4, 5], FloatCol [1, 2, 3, 4, 5]] \<and>
   map sx (concat (map artists (charts (snd (run (choosing opcao_3d_com env_ex)))))) =
     [FloatCol [2], FloatCol [4], FloatCol [1], FloatCol [5], FloatCol [3],
      FloatCol [2, 4, 1, 5, 3]]"
proof -
  have shape: "coldata reduzido_ex = [[1, 2, 3, 4, 5], [6, 7, 8, 9, 10], [11, 12, 13, 14, 15]]"
    "length [2, 0, 4, 1, 3 :: int] = shape0 reduzido_ex"
    "coldata centros_ex = [2, 4, 1, 5, 3] # [7, 9, 6, 10, 8] # [12, 14, 11, 15, 13] # []"
    by (simp_all add: reduzido_ex_def centros_ex_def)
  note run = run_charts_3d [OF env_ex_simps(1) env_ex_simps(2) env_ex_simps(3) env_ex_simps(4)
      labels_ex_length env_ex_simps(5) shape(1) shape(2)]
  show ?thesis
    by (simp add: run(1) run(2) [OF shape(3)] upt_5 keep_def comp_def)
qed

text \<open>
  C3, amended. Both 3-D views draw from the same reduced coordinates, the three columns
  returned by the PCA prefix, on the same axes and with the same colours and series
  labels. Without dispersion each of the five series holds every record and no centroid
  is drawn; with dispersion series \<open>i\<close> holds the records whose label is \<open>i\<close>, and the
  cluster centres are overlaid as black crosses.
\<close>

theorem views_3d_same_coordinates:
  assumes "read_csv env DADOS = Inr t"
    and "column_transformer env preprocessing t = Inr Xt"
    and "pca env 3 RANDOM_STATE Xt = Inr Xr"
    and "kmeans env 5 RANDOM_STATE 10 Xr = Inr (labels, centers)"
    and "length labels = nrows t"
    and "dump_error env MODELO = None"
    and "coldata Xr = [xs, ys, zs]"
    and "length labels = shape0 Xr"
    and "coldata centers = cx # cy # cz # outros"
  shows "charts (snd (run (choosing opcao_3d_sem env))) =
     [Figure3D
       (map (\<lambda>i. \<lparr>sx = FloatCol xs, sy = FloatCol ys, sz = FloatCol zs,
                    scolor = PaletteColor ''Set2'' 5 i,
                    slabel = Some (''Cluster '' @ str_nat i),
                    smarker = None, ssize = None\<rparr>) [0..<5])
       ''pca0'' ''pca1'' ''pca2''] \<and>
   charts (snd (run (choosing opcao_3d_com env))) =
     [Figure3D
       (map (\<lambda>i. \<lparr>sx = FloatCol (keep (map (\<lambda>l. l = int i) labels) xs),
                    sy = FloatCol (keep (map (\<lambda>l. l = int i) labels) ys),
                    sz = FloatCol (keep (map (\<lambda>l. l = int i) labels) zs),
                    scolor = PaletteColor ''Set2'' 5 i,
                    slabel = Some (''Cluster '' @ str_nat i),
                    smarker = None, ssize = None\<rparr>) [0..<5] @
        [\<lparr>sx = FloatCol cx, sy = FloatCol cy, sz = FloatCol cz,
          scolor = NamedColor ''black'', slabel = None, smarker = Some ''x'',
          ssize = Some 200\<rparr>])
       ''pca0'' ''pca1'' ''pca2'']"
  using run_charts_3d(1) [OF assms(1-8)] run_charts_3d(2) [OF assms(1-8) assms(9)]
  by simp

theorem views_3d_same_coordinates_witness:
  "read_csv env_ex DADOS = Inr tabela_ex \<and>
   coldata reduzido_ex = [[1, 2, 3, 4, 5], [6, 7, 8, 9, 10], [11, 12, 13, 14, 15]] \<and>
   map (\<lambda>s. (sx s, sy s, sz s))
     (concat (map artists (charts (snd (run (choosing opcao_3d_com env_ex)))))) =
     [(FloatCol [2], FloatCol [7], FloatCol [12]), (FloatCol [4], FloatCol [9], FloatCol [14]),
      (FloatCol [1], FloatCol [6], FloatCol [11]), (FloatCol [5], FloatCol [10], FloatCol [15]),
      (FloatCol [3], FloatCol [8], FloatCol [13]),
      (FloatCol [2, 4, 1, 5, 3], FloatCol [7, 9, 6, 10, 8], FloatCol [12, 14, 11, 15, 13])]"
proof -
  have shape: "coldata reduzido_ex = [[1, 2, 3, 4, 5], [6, 7, 8, 9, 10], [11, 12, 13, 14, 15]]"
    "length [2, 0, 4, 1, 3 :: int] = shape0 reduzido_ex"
    "coldata centros_ex = [2, 4, 1, 5, 3] # [7, 9, 6, 10, 8] # [12, 14, 11, 15, 13] # []"
    by (simp_all add: reduzido_ex_def centros_ex_def)
  from views_3d_same_coordinates [OF env_ex_simps(1) env_ex_simps(2) env_ex_simps(3)
      env_ex_simps(4) labels_ex_length env_ex_simps(5) shape(1) shape(2) shape(3)]
    env_ex_simps(1) shape(1)
  show ?thesis
    by (simp add: upt_5 keep_def comp_def)
qed

end
